theory Spec2Isabelle
  imports Complex_Main "HOL-Library.List_Lexorder" "HOL-Library.Multiset"
    "HOL-Library.AList"
begin

section \<open>JavaScript strings and JSON values\<close>

text \<open>
  A JavaScript string is a sequence of UTF-16 code units, so it is modelled as a list of
  natural numbers. ASCII literals of the source are written with \<open>asc\<close>; Korean literals
  are written as their code units, with the source text in a comment.
\<close>

type_synonym ustring = "nat list"

definition asc :: "string \<Rightarrow> ustring" where
  "asc s = map of_char s"

text \<open>
  A parsed JSON value. Numbers are exact rationals. The members of an object are kept in
  the order of the text; \<open>JSON.parse\<close> lets the last of several equal keys win.
\<close>

datatype json =
    JNull
  | JBool bool
  | JNum rat
  | JStr ustring
  | JArr "json list"
  | JObj "(ustring \<times> json) list"

text \<open>
  Reading a named property: \<open>None\<close> is JavaScript's \<open>undefined\<close>. Only objects carry the
  property names the program reads (\<open>id\<close>, \<open>date\<close>, \<open>error\<close>, ...); numbers, strings,
  booleans and arrays answer \<open>undefined\<close> for them.
\<close>

fun getProp :: "json \<Rightarrow> ustring \<Rightarrow> json option" where
  "getProp (JObj kvs) k = map_of (rev kvs) k"
| "getProp _ k = None"

text \<open>Optional chaining \<open>x?.k\<close>: \<open>undefined\<close> and \<open>null\<close> both give \<open>undefined\<close>.\<close>

fun chain :: "json option \<Rightarrow> ustring \<Rightarrow> json option" where
  "chain None k = None"
| "chain (Some v) k = getProp v k"

text \<open>\<open>x?.[0]\<close>: the first element of an array, the first code unit of a string, the
  member \<open>"0"\<close> of an object.\<close>

fun chain0 :: "json option \<Rightarrow> json option" where
  "chain0 (Some (JArr (x # xs))) = Some x"
| "chain0 (Some (JStr (c # cs))) = Some (JStr [c])"
| "chain0 (Some (JObj kvs)) = map_of (rev kvs) (asc ''0'')"
| "chain0 _ = None"

fun truthy :: "json option \<Rightarrow> bool" where
  "truthy None = False"
| "truthy (Some JNull) = False"
| "truthy (Some (JBool b)) = b"
| "truthy (Some (JNum n)) = (n \<noteq> 0)"
| "truthy (Some (JStr s)) = (s \<noteq> [])"
| "truthy (Some (JArr xs)) = True"
| "truthy (Some (JObj kvs)) = True"

text \<open>
  An \<open>Error\<close> object is its message: a string, or the value handed to \<open>new Error\<close> when
  that value is not a string (its message is then that value's string conversion).
\<close>

datatype js_error = Err ustring | ErrOf json

section \<open>String helpers\<close>

text \<open>\<open>String(n)\<close> for a natural number: its decimal digits.\<close>

function showNat :: "nat \<Rightarrow> ustring" where
  "showNat n = (if n < 10 then [48 + n] else showNat (n div 10) @ [48 + n mod 10])"
  by pat_completeness auto
termination
  by (relation "measure (\<lambda>n. n)") auto

declare showNat.simps [simp del]

text \<open>\<open>String(n)\<close> for an integer.\<close>

definition showInt :: "int \<Rightarrow> ustring" where
  "showInt i = (if i < 0 then 45 # showNat (nat (- i)) else showNat (nat i))"

text \<open>\<open>s.padStart(n, '0')\<close>.\<close>

definition padStart0 :: "nat \<Rightarrow> ustring \<Rightarrow> ustring" where
  "padStart0 n s = replicate (n - length s) 48 @ s"

definition isDigit :: "nat \<Rightarrow> bool" where
  "isDigit c = (48 \<le> c \<and> c \<le> 57)"

text \<open>\<open>Number(s)\<close> for a string of decimal digits.\<close>

definition digitsToNat :: "ustring \<Rightarrow> nat" where
  "digitsToNat s = foldl (\<lambda>acc c. 10 * acc + (c - 48)) 0 s"

text \<open>The code units that \<open>trim\<close> removes and the regular expression class \<open>\s\<close>
  matches: white space and line terminators.\<close>

definition isWhiteSpace :: "nat \<Rightarrow> bool" where
  "isWhiteSpace c =
     (c = 9 \<or> c = 10 \<or> c = 11 \<or> c = 12 \<or> c = 13 \<or> c = 32 \<or> c = 160 \<or> c = 5760
      \<or> (8192 \<le> c \<and> c \<le> 8202) \<or> c = 8232 \<or> c = 8233 \<or> c = 8239 \<or> c = 8287
      \<or> c = 12288 \<or> c = 65279)"

definition trim :: "ustring \<Rightarrow> ustring" where
  "trim s = rev (dropWhile isWhiteSpace (rev (dropWhile isWhiteSpace s)))"

text \<open>\<open>s.startsWith(p)\<close>.\<close>

fun startsWith :: "ustring \<Rightarrow> ustring \<Rightarrow> bool" where
  "startsWith s [] = True"
| "startsWith [] (p # ps) = False"
| "startsWith (c # cs) (p # ps) = (c = p \<and> startsWith cs ps)"

text \<open>\<open>s.includes(k)\<close>.\<close>

fun strIncludes :: "ustring \<Rightarrow> ustring \<Rightarrow> bool" where
  "strIncludes [] k = (k = [])"
| "strIncludes (c # cs) k = (startsWith (c # cs) k \<or> strIncludes cs k)"

text \<open>
  \<open>a.localeCompare(b)\<close>, as its sign. The program compares date keys only; on strings of
  digits and hyphens of one layout the locale order is the order of the code units, which
  is the order modelled here.
\<close>

definition compareDateKey :: "ustring \<Rightarrow> ustring \<Rightarrow> int" where
  "compareDateKey a b = (if a < b then - 1 else if a = b then 0 else 1)"

section \<open>Dates\<close>

text \<open>
  A \<open>Date\<close> is read by the program through \<open>getFullYear\<close>, \<open>getMonth\<close> (0 to 11) and
  \<open>getDate\<close> only, and is always built at local midnight, so it is modelled as the local
  calendar day it denotes, in the proleptic Gregorian calendar.
\<close>

record js_date =
  getFullYear :: int
  getMonth :: int
  getDate :: int

definition isLeapYear :: "int \<Rightarrow> bool" where
  "isLeapYear y = ((y mod 4 = 0 \<and> y mod 100 \<noteq> 0) \<or> y mod 400 = 0)"

definition daysInMonth :: "int \<Rightarrow> int \<Rightarrow> int" where
  "daysInMonth y m =
     (if m = 1 then (if isLeapYear y then 29 else 28)
      else if m = 3 \<or> m = 5 \<or> m = 8 \<or> m = 10 then 30 else 31)"

text \<open>
  A day of the month outside the month carries into the neighbouring months, as
  \<open>MakeDay\<close> does: day 0 is the last day of the month before, day 32 of a month of 31
  days is the first of the next month.
\<close>

function normDay :: "int \<Rightarrow> int \<Rightarrow> int \<Rightarrow> js_date" where
  "normDay y m d =
     (if d < 1 then
        normDay (if m = 0 then y - 1 else y) (if m = 0 then 11 else m - 1)
                (d + daysInMonth (if m = 0 then y - 1 else y) (if m = 0 then 11 else m - 1))
      else if d > daysInMonth y m then
        normDay (if m = 11 then y + 1 else y) (if m = 11 then 0 else m + 1) (d - daysInMonth y m)
      else \<lparr>getFullYear = y, getMonth = m, getDate = d\<rparr>)"
  by pat_completeness auto
termination
  by (relation "measure (\<lambda>(y, m, d). if d < 1 then nat (32 - d) else nat d)")
     (auto simp: daysInMonth_def)

declare normDay.simps [simp del]

text \<open>\<open>new Date(y, m, d)\<close>: years 0 to 99 mean 1900 to 1999, a month index outside 0 to
  11 carries into the year, then the day carries into the months.\<close>

definition newDate :: "int \<Rightarrow> int \<Rightarrow> int \<Rightarrow> js_date" where
  "newDate y m d =
     (let yr = (if 0 \<le> y \<and> y \<le> 99 then 1900 + y else y)
      in normDay (yr + m div 12) (m mod 12) d)"

text \<open>\<open>date.setDate(date.getDate() + delta)\<close>.\<close>

definition addDays :: "js_date \<Rightarrow> int \<Rightarrow> js_date" where
  "addDays dt delta = normDay (getFullYear dt) (getMonth dt) (getDate dt + delta)"


definition formatDateKey :: "js_date \<Rightarrow> ustring" where
  "formatDateKey dt =
     showInt (getFullYear dt) @ asc ''-'' @ padStart0 2 (showInt (getMonth dt + 1))
       @ asc ''-'' @ padStart0 2 (showInt (getDate dt))"

text \<open>\<open>buildDateKeyFromParts\<close> of the calendar, and the same template in the window
  inference: year padded to four digits, month and day to two.\<close>

definition buildDateKeyFromParts :: "int \<Rightarrow> int \<Rightarrow> int \<Rightarrow> ustring" where
  "buildDateKeyFromParts year month day =
     padStart0 4 (showInt year) @ asc ''-'' @ padStart0 2 (showInt month)
       @ asc ''-'' @ padStart0 2 (showInt day)"

text \<open>The test \<open>/^\d{4}-\d{2}-\d{2}$/\<close> on a string.\<close>

fun isDateKeyLike :: "ustring \<Rightarrow> bool" where
  "isDateKeyLike [y1, y2, y3, y4, h1, m1, m2, h2, d1, d2] =
     (isDigit y1 \<and> isDigit y2 \<and> isDigit y3 \<and> isDigit y4 \<and> h1 = 45
      \<and> isDigit m1 \<and> isDigit m2 \<and> h2 = 45 \<and> isDigit d1 \<and> isDigit d2)"
| "isDateKeyLike _ = False"

text \<open>The parts \<open>dateKey.split('-').map(Number)\<close> of a string of that layout.\<close>

definition keyYear :: "ustring \<Rightarrow> int" where
  "keyYear k = int (digitsToNat (take 4 k))"

definition keyMonth :: "ustring \<Rightarrow> int" where
  "keyMonth k = int (digitsToNat (take 2 (drop 5 k)))"

definition keyDay :: "ustring \<Rightarrow> int" where
  "keyDay k = int (digitsToNat (take 2 (drop 8 k)))"

definition isValidDateKey :: "ustring \<Rightarrow> bool" where
  "isValidDateKey dateKey =
     (if \<not> isDateKeyLike dateKey then False
      else (let obj = newDate (keyYear dateKey) (keyMonth dateKey - 1) (keyDay dateKey)
            in getFullYear obj = keyYear dateKey \<and> getMonth obj = keyMonth dateKey - 1
               \<and> getDate obj = keyDay dateKey))"

definition shiftDateKeyByDays :: "ustring \<Rightarrow> int \<Rightarrow> ustring" where
  "shiftDateKeyByDays dateKey deltaDays =
     (if \<not> isValidDateKey dateKey then dateKey
      else formatDateKey
             (addDays (newDate (keyYear dateKey) (keyMonth dateKey - 1) (keyDay dateKey)) deltaDays))"

definition clampMinDateKey :: "ustring \<Rightarrow> ustring \<Rightarrow> ustring" where
  "clampMinDateKey dateKey minDateKey =
     (if compareDateKey dateKey minDateKey < 0 then minDateKey else dateKey)"

definition clampMaxDateKey :: "ustring \<Rightarrow> ustring \<Rightarrow> ustring" where
  "clampMaxDateKey dateKey maxDateKey =
     (if compareDateKey dateKey maxDateKey > 0 then maxDateKey else dateKey)"


section \<open>Events, overrides and browser storage\<close>

datatype event_source = Manual | AI

definition sourceName :: "event_source \<Rightarrow> ustring" where
  "sourceName s = (case s of Manual \<Rightarrow> asc ''manual'' | AI \<Rightarrow> asc ''ai'')"

text \<open>A stored user event (\<open>StoredUserEvent\<close>; the calendar's \<open>UserCalendarEvent\<close> adds the
  constant \<open>kind: 'user'\<close>). A category is the string the program holds at run time.\<close>

record user_event =
  ev_id :: ustring
  ev_date :: ustring
  ev_title :: ustring
  ev_category :: ustring
  ev_source :: event_source

text \<open>The thirteen categories of \<open>EVENT_CATEGORIES\<close> (types.ts), as code units: budget,
  payroll, expenditure, contract, facilities, complaints, meetings, school council,
  shared property, revenue, goods, personnel, other.\<close>

definition EVENT_CATEGORIES :: "ustring list" where
  "EVENT_CATEGORIES =
     [[50696, 49328], [44553, 50668], [51648, 52636], [44228, 50557], [49884, 49444],
      [48124, 50896], [54924, 51032], [54617, 50868, 50948], [44277, 50976, 51116, 49328],
      [49464, 51077], [47932, 54408], [51064, 49324], [44592, 53440]]"

definition DEFAULT_EVENT_CATEGORY :: ustring where
  "DEFAULT_EVENT_CATEGORY = [44592, 53440]"

text \<open>A sparse patch of a builtin event (\<open>BuiltinEventOverride\<close>); an absent field is
  \<open>None\<close>. The overrides object is an association list in insertion order.\<close>

record override =
  o_date :: "ustring option"
  o_title :: "ustring option"
  o_category :: "ustring option"

type_synonym overrides = "(ustring \<times> override) list"

text \<open>
  \<open>localStorage\<close>: each key holds a text, kept here as \<open>JSON.parse\<close> reads it
  (\<open>None\<close> for a text that \<open>JSON.parse\<close> rejects, the empty text included, which every
  loader treats like a missing key). \<open>setItem\<close> can throw (private browsing, quota
  exceeded): \<open>writable\<close> says whether a write of a text under a key succeeds in the
  current contents. \<open>JSON.stringify\<close> followed by \<open>JSON.parse\<close> gives the value back, so
  a write stores the value.
\<close>

record local_storage =
  items :: "ustring \<Rightarrow> json option option"
  writable :: "(ustring \<Rightarrow> json option option) \<Rightarrow> ustring \<Rightarrow> json \<Rightarrow> bool"

text \<open>The browser as the program sees it: the storage and the custom events dispatched
  on \<open>window\<close> so far (latest last).\<close>

record browser =
  storage :: local_storage
  dispatched :: "ustring list"

definition setItem :: "browser \<Rightarrow> ustring \<Rightarrow> json \<Rightarrow> js_error + browser" where
  "setItem b k v =
     (if writable (storage b) (items (storage b)) k v
      then Inr (b\<lparr>storage := (storage b)\<lparr>items := (items (storage b))(k \<mapsto> Some v)\<rparr>\<rparr>)
      else Inl (Err (asc ''QuotaExceededError'')))"

definition dispatchEvent :: "browser \<Rightarrow> ustring \<Rightarrow> browser" where
  "dispatchEvent b name = b\<lparr>dispatched := dispatched b @ [name]\<rparr>"

definition USER_EVENTS_STORAGE_KEY :: ustring where
  "USER_EVENTS_STORAGE_KEY = asc ''smartcalendar:userEvents''"

definition BUILTIN_EVENT_OVERRIDES_STORAGE_KEY :: ustring where
  "BUILTIN_EVENT_OVERRIDES_STORAGE_KEY = asc ''smartcalendar:builtinEventOverrides''"

definition EVENT_FILTERS_STORAGE_KEY :: ustring where
  "EVENT_FILTERS_STORAGE_KEY = asc ''smartcalendar:eventFilters''"

definition USER_EVENTS_UPDATED_EVENT :: ustring where
  "USER_EVENTS_UPDATED_EVENT = asc ''smartcalendar:userEventsUpdated''"

definition BUILTIN_EVENT_OVERRIDES_UPDATED_EVENT :: ustring where
  "BUILTIN_EVENT_OVERRIDES_UPDATED_EVENT = asc ''smartcalendar:builtinEventOverridesUpdated''"

text \<open>The JSON written for one user event: \<open>{id, date, title, category, source}\<close>.\<close>

definition userEventJson :: "user_event \<Rightarrow> json" where
  "userEventJson ev =
     JObj [(asc ''id'', JStr (ev_id ev)), (asc ''date'', JStr (ev_date ev)),
           (asc ''title'', JStr (ev_title ev)), (asc ''category'', JStr (ev_category ev)),
           (asc ''source'', JStr (sourceName (ev_source ev)))]"

text \<open>The JSON written for one override: its present fields.\<close>

definition overrideJson :: "override \<Rightarrow> json" where
  "overrideJson ov =
     JObj ((case o_date ov of None \<Rightarrow> [] | Some d \<Rightarrow> [(asc ''date'', JStr d)])
         @ (case o_title ov of None \<Rightarrow> [] | Some t \<Rightarrow> [(asc ''title'', JStr t)])
         @ (case o_category ov of None \<Rightarrow> [] | Some c \<Rightarrow> [(asc ''category'', JStr c)]))"

definition overridesJson :: "overrides \<Rightarrow> json" where
  "overridesJson ovs = JObj (map (\<lambda>(k, ov). (k, overrideJson ov)) ovs)"

subsection \<open>The calendar's persistence helpers (components/Calendar)\<close>

text \<open>Each helper wraps its write in \<open>try { ... } catch { }\<close>: \<open>Inl\<close> would be an error
  thrown to the caller, \<open>Inr\<close> is the browser after the call.\<close>

definition Calendar_saveUserEventsToStorage :: "browser \<Rightarrow> user_event list \<Rightarrow> js_error + browser" where
  "Calendar_saveUserEventsToStorage b events =
     (case setItem b USER_EVENTS_STORAGE_KEY (JArr (map userEventJson events)) of
        Inl e \<Rightarrow> Inr b
      | Inr b' \<Rightarrow> Inr b')"

definition saveEventFiltersToStorage ::
    "browser \<Rightarrow> ustring list \<Rightarrow> event_source list \<Rightarrow> js_error + browser" where
  "saveEventFiltersToStorage b categories sources =
     (case setItem b EVENT_FILTERS_STORAGE_KEY
             (JObj [(asc ''categories'', JArr (map JStr categories)),
                    (asc ''sources'', JArr (map (\<lambda>s. JStr (sourceName s)) sources))]) of
        Inl e \<Rightarrow> Inr b
      | Inr b' \<Rightarrow> Inr b')"

definition saveBuiltinEventOverridesToStorage :: "browser \<Rightarrow> overrides \<Rightarrow> js_error + browser" where
  "saveBuiltinEventOverridesToStorage b ovs =
     (case setItem b BUILTIN_EVENT_OVERRIDES_STORAGE_KEY (overridesJson ovs) of
        Inl e \<Rightarrow> Inr b
      | Inr b' \<Rightarrow> Inr b')"

subsection \<open>The chatbot's persistence helper (components/Chatbot)\<close>

definition Chatbot_saveUserEventsToStorage :: "browser \<Rightarrow> user_event list \<Rightarrow> js_error + browser" where
  "Chatbot_saveUserEventsToStorage b events =
     (case setItem b USER_EVENTS_STORAGE_KEY (JArr (map userEventJson events)) of
        Inl e \<Rightarrow> Inr b
      | Inr b' \<Rightarrow> Inr b')"

subsection \<open>The backup dialog's persistence helpers (components/ApiKeyModal)\<close>

text \<open>These two have no \<open>try\<close>: an error of \<open>setItem\<close> leaves the function, and the
  change notification is dispatched only after a successful write.\<close>

definition saveStoredUserEvents :: "browser \<Rightarrow> user_event list \<Rightarrow> js_error + browser" where
  "saveStoredUserEvents b events =
     (case setItem b USER_EVENTS_STORAGE_KEY (JArr (map userEventJson events)) of
        Inl e \<Rightarrow> Inl e
      | Inr b' \<Rightarrow> Inr (dispatchEvent b' USER_EVENTS_UPDATED_EVENT))"

definition saveStoredBuiltinOverrides :: "browser \<Rightarrow> overrides \<Rightarrow> js_error + browser" where
  "saveStoredBuiltinOverrides b ovs =
     (case setItem b BUILTIN_EVENT_OVERRIDES_STORAGE_KEY (overridesJson ovs) of
        Inl e \<Rightarrow> Inl e
      | Inr b' \<Rightarrow> Inr (dispatchEvent b' BUILTIN_EVENT_OVERRIDES_UPDATED_EVENT))"

section \<open>Inference of the execution window (components/Chatbot)\<close>











record execution_window =
  w_start :: ustring
  w_end :: ustring



section \<open>The schedule proposal pipeline (components/Chatbot)\<close>

record proposal_item =
  i_date :: ustring
  i_title :: ustring
  i_category :: ustring

text \<open>\<open>asEventCategory\<close>: a string of the enumeration, or \<open>null\<close>.\<close>

definition asEventCategory :: "json option \<Rightarrow> ustring option" where
  "asEventCategory v =
     (case v of
        Some (JStr s) \<Rightarrow> if s \<in> set EVENT_CATEGORIES then Some s else None
      | _ \<Rightarrow> None)"

definition asCalendarEventSource :: "json option \<Rightarrow> event_source option" where
  "asCalendarEventSource v =
     (if v = Some (JStr (asc ''manual'')) then Some Manual
      else if v = Some (JStr (asc ''ai'')) then Some AI
      else None)"

text \<open>\<open>isValidDateKey\<close> applied to a value that need not be a string.\<close>

definition isValidDateKeyValue :: "json option \<Rightarrow> bool" where
  "isValidDateKeyValue v = (case v of Some (JStr s) \<Rightarrow> isValidDateKey s | _ \<Rightarrow> False)"

text \<open>The keyword lists of \<open>isPreWorkTitle\<close> (approval request, commitment, contract,
  vendor, order, bid, estimate, selection, sign-off, submission) and of \<open>isPostWorkTitle\<close>
  (inspection, completion, settlement, expenditure, payment, tax invoice, payment of the
  price, expenditure resolution), as code units.\<close>

definition preWorkKeywords :: "ustring list" where
  "preWorkKeywords =
     [[54408, 51032],
      [50896, 51064, 54665, 50948],
      [44228, 50557],
      [50629, 52404],
      [48156, 51452],
      [51077, 52272],
      [44204, 51201],
      [49440, 51221],
      [44208, 51116],
      [49345, 49888]]"

definition postWorkKeywords :: "ustring list" where
  "postWorkKeywords =
     [[44160, 49688],
      [51456, 44277],
      [51221, 49328],
      [51648, 52636],
      [45824, 44552],
      [49464, 44552, 44228, 49328, 49436],
      [45824, 44552, 51648, 44553],
      [51648, 52636, 44208, 51032]]"

definition isPreWorkTitle :: "ustring \<Rightarrow> bool" where
  "isPreWorkTitle t = list_ex (\<lambda>k. strIncludes t k) preWorkKeywords"

definition isPostWorkTitle :: "ustring \<Rightarrow> bool" where
  "isPostWorkTitle t = list_ex (\<lambda>k. strIncludes t k) postWorkKeywords"

text \<open>The key \<open>`${date}::${title}`\<close> used for deduplication.\<close>

definition eventKey :: "ustring \<Rightarrow> ustring \<Rightarrow> ustring" where
  "eventKey d t = d @ asc ''::'' @ t"

text \<open>The project name: the trimmed \<open>project\<close> of the payload when it is a string that
  is not blank, else the trimmed first 30 code units of the user's text.\<close>

definition resolveProject :: "json \<Rightarrow> ustring \<Rightarrow> ustring" where
  "resolveProject parsed userMessageText =
     (case chain (Some parsed) (asc ''project'') of
        Some (JStr p) \<Rightarrow> if trim p \<noteq> [] then trim p else trim (take 30 userMessageText)
      | _ \<Rightarrow> trim (take 30 userMessageText))"

definition resolveDeadline :: "json \<Rightarrow> ustring option" where
  "resolveDeadline parsed =
     (case chain (Some parsed) (asc ''deadline'') of
        Some (JStr d) \<Rightarrow> if isValidDateKey d then Some d else None
      | _ \<Rightarrow> None)"

text \<open>The callback of \<open>parsed.events.map\<close>: \<open>None\<close> is the \<open>null\<close> that the following
  \<open>filter(Boolean)\<close> removes.\<close>

definition taskCandidateOf :: "json \<Rightarrow> ustring" where
  "taskCandidateOf ev =
     (case chain (Some ev) (asc ''task'') of
        Some (JStr t) \<Rightarrow> trim t
      | _ \<Rightarrow> (case chain (Some ev) (asc ''title'') of Some (JStr t) \<Rightarrow> trim t | _ \<Rightarrow> []))"

definition resolvedTitle :: "ustring \<Rightarrow> ustring \<Rightarrow> ustring" where
  "resolvedTitle project taskCandidate =
     (let projectPrefix = project @ asc '':'';
          normalizedTask = (if startsWith taskCandidate projectPrefix
                            then trim (drop (length projectPrefix) taskCandidate)
                            else taskCandidate)
      in if project \<noteq> [] then project @ asc '': '' @ normalizedTask else normalizedTask)"

definition candidateEvent :: "ustring \<Rightarrow> json \<Rightarrow> proposal_item option" where
  "candidateEvent project ev =
     (let dateV = chain (Some ev) (asc ''date'');
          taskCandidate = taskCandidateOf ev
      in if taskCandidate = [] then None
         else (let title = resolvedTitle project taskCandidate;
                   category = (case asEventCategory (chain (Some ev) (asc ''category'')) of
                                 Some c \<Rightarrow> c | None \<Rightarrow> DEFAULT_EVENT_CATEGORY)
               in if \<not> isValidDateKeyValue dateV then None
                  else if title = [] then None
                  else (case dateV of
                          Some (JStr d) \<Rightarrow> Some \<lparr>i_date = d, i_title = title, i_category = category\<rparr>
                        | _ \<Rightarrow> None)))"

definition candidateEvents :: "ustring \<Rightarrow> json \<Rightarrow> proposal_item list" where
  "candidateEvents project parsed =
     (case chain (Some parsed) (asc ''events'') of
        Some (JArr evs) \<Rightarrow> List.map_filter (candidateEvent project) evs
      | _ \<Rightarrow> [])"

text \<open>The deduplication loop, with the set \<open>seen\<close> of keys met so far.\<close>

fun dedupe :: "ustring set \<Rightarrow> proposal_item list \<Rightarrow> proposal_item list" where
  "dedupe seen [] = []"
| "dedupe seen (item # rest) =
     (if eventKey (i_date item) (i_title item) \<in> seen then dedupe seen rest
      else item # dedupe (insert (eventKey (i_date item) (i_title item)) seen) rest)"

text \<open>\<open>deduped.slice(0, 4)\<close> with every date moved up to today at least.\<close>

definition initialProposedItems :: "ustring \<Rightarrow> proposal_item list \<Rightarrow> proposal_item list" where
  "initialProposedItems todayKey deduped =
     map (\<lambda>item. item\<lparr>i_date := clampMinDateKey (i_date item) todayKey\<rparr>) (take 4 deduped)"

definition preWorkLatestKey :: "ustring \<Rightarrow> ustring \<Rightarrow> ustring" where
  "preWorkLatestKey executionStartKey todayKey =
     clampMinDateKey (shiftDateKeyByDays executionStartKey (- 1)) todayKey"

definition postWorkEarliestKey :: "ustring \<Rightarrow> ustring \<Rightarrow> ustring" where
  "postWorkEarliestKey executionEndKey todayKey = clampMinDateKey executionEndKey todayKey"

text \<open>The callback of the first \<open>proposedItems.map\<close> under an execution window.\<close>

definition clampItemToWindow :: "ustring \<Rightarrow> ustring \<Rightarrow> ustring \<Rightarrow> proposal_item \<Rightarrow> proposal_item" where
  "clampItemToWindow todayKey executionStartKey executionEndKey item =
     (let date0 = i_date item;
          preWork = isPreWorkTitle (i_title item);
          postWork = isPostWorkTitle (i_title item);
          date1 =
            (if preWork then clampMaxDateKey date0 (preWorkLatestKey executionStartKey todayKey)
             else if postWork
               then clampMinDateKey date0 (postWorkEarliestKey executionEndKey todayKey)
             else (let d = (if compareDateKey date0 executionStartKey < 0
                            then executionStartKey else date0)
                   in if compareDateKey d executionEndKey > 0 then executionEndKey else d))
      in item\<lparr>i_date := clampMinDateKey date1 todayKey\<rparr>)"

definition preWorkRank :: "ustring \<Rightarrow> nat" where
  "preWorkRank t =
     (if strIncludes t [54408, 51032] \<or> strIncludes t [49345, 49888] \<or> strIncludes t [44208, 51116] then 0
      else if strIncludes t [44204, 51201] \<or> strIncludes t [50629, 52404] \<or> strIncludes t [49440, 51221]
              \<or> strIncludes t [51077, 52272] then 1
      else if strIncludes t [44228, 50557] \<or> strIncludes t [50896, 51064, 54665, 50948] \<or> strIncludes t [48156, 51452] then 2
      else 3)"

definition postWorkRank :: "ustring \<Rightarrow> nat" where
  "postWorkRank t =
     (if strIncludes t [44160, 49688] \<or> strIncludes t [51456, 44277] then 0
      else if strIncludes t [51221, 49328] \<or> strIncludes t [51648, 52636] then 1
      else if strIncludes t [49464, 44552, 44228, 49328, 49436] \<or> strIncludes t [45824, 44552] then 2
      else 3)"

text \<open>The indices of the items of a class, ordered by rank (\<open>Array.prototype.sort\<close> is
  stable, as \<open>sort_key\<close> is).\<close>

definition rankedIndices :: "(ustring \<Rightarrow> bool) \<Rightarrow> (ustring \<Rightarrow> nat) \<Rightarrow> proposal_item list \<Rightarrow> nat list" where
  "rankedIndices isClass rank its =
     sort_key (\<lambda>idx. rank (i_title (its ! idx)))
       (filter (\<lambda>idx. isClass (i_title (its ! idx))) [0..<length its])"

text \<open>\<open>indices.forEach((idx, order) => ...)\<close> writing a date into each listed item.\<close>

fun respread :: "(nat \<Rightarrow> ustring) \<Rightarrow> nat \<Rightarrow> nat list \<Rightarrow> proposal_item list \<Rightarrow> proposal_item list" where
  "respread desired order [] its = its"
| "respread desired order (idx # rest) its =
     respread desired (Suc order) rest (its[idx := (its ! idx)\<lparr>i_date := desired order\<rparr>])"

definition respreadPreWork :: "ustring \<Rightarrow> ustring \<Rightarrow> proposal_item list \<Rightarrow> proposal_item list" where
  "respreadPreWork todayKey executionStartKey its =
     (let preWorkIndices = rankedIndices isPreWorkTitle preWorkRank its;
          preWorkDates = set (map (\<lambda>idx. i_date (its ! idx)) preWorkIndices)
      in if length preWorkIndices > 1 \<and> card preWorkDates < length preWorkIndices
         then respread
                (\<lambda>order. clampMinDateKey
                   (shiftDateKeyByDays (preWorkLatestKey executionStartKey todayKey)
                      (- (int (length preWorkIndices) - 1 - int order))) todayKey)
                0 preWorkIndices its
         else its)"

definition respreadPostWork :: "ustring \<Rightarrow> ustring \<Rightarrow> proposal_item list \<Rightarrow> proposal_item list" where
  "respreadPostWork todayKey executionEndKey its =
     (let postWorkIndices = rankedIndices isPostWorkTitle postWorkRank its;
          postWorkDates = set (map (\<lambda>idx. i_date (its ! idx)) postWorkIndices)
      in if length postWorkIndices > 1 \<and> card postWorkDates < length postWorkIndices
         then respread
                (\<lambda>order. clampMinDateKey
                   (shiftDateKeyByDays (postWorkEarliestKey executionEndKey todayKey) (int order))
                   todayKey)
                0 postWorkIndices its
         else its)"

text \<open>The items of the proposal, from the parsed payload: validation, deduplication, the
  cap, the window rules when a window was inferred, and the final stable sort by date.\<close>

definition proposedItems ::
    "ustring \<Rightarrow> ustring \<Rightarrow> execution_window option \<Rightarrow> json \<Rightarrow> proposal_item list" where
  "proposedItems userMessageText todayKey executionWindow parsed =
     (let project = resolveProject parsed userMessageText;
          deduped = dedupe {} (candidateEvents project parsed);
          items0 = initialProposedItems todayKey deduped;
          items1 =
            (case executionWindow of
               None \<Rightarrow> items0
             | Some w \<Rightarrow>
                 if w_start w \<noteq> [] \<and> w_end w \<noteq> []
                 then respreadPostWork todayKey (w_end w)
                        (respreadPreWork todayKey (w_start w)
                           (map (clampItemToWindow todayKey (w_start w) (w_end w)) items0))
                 else items0)
      in sort_key i_date items1)"


section \<open>Applying a schedule proposal (components/Chatbot)\<close>

definition Chatbot_parseUserEvent :: "json \<Rightarrow> user_event option" where
  "Chatbot_parseUserEvent item =
     (case getProp item (asc ''id'') of
        Some (JStr i) \<Rightarrow>
          (case getProp item (asc ''title'') of
             Some (JStr t) \<Rightarrow>
               if trim t = [] then None
               else (case getProp item (asc ''date'') of
                       Some (JStr d) \<Rightarrow>
                         if \<not> isValidDateKey d then None
                         else Some \<lparr>ev_id = i, ev_date = d, ev_title = trim t,
                                 ev_category =
                                   (case asEventCategory (getProp item (asc ''category'')) of
                                      Some c \<Rightarrow> c | None \<Rightarrow> DEFAULT_EVENT_CATEGORY),
                                 ev_source =
                                   (case asCalendarEventSource (getProp item (asc ''source'')) of
                                      Some s \<Rightarrow> s | None \<Rightarrow> Manual)\<rparr>
                     | _ \<Rightarrow> None)
           | _ \<Rightarrow> None)
      | _ \<Rightarrow> None)"

text \<open>A missing key, an empty or unparsable text and a value that is not an array all
  give the empty list.\<close>

definition Chatbot_loadUserEventsFromStorage :: "browser \<Rightarrow> user_event list" where
  "Chatbot_loadUserEventsFromStorage b =
     (case items (storage b) USER_EVENTS_STORAGE_KEY of
        Some (Some (JArr xs)) \<Rightarrow> List.map_filter Chatbot_parseUserEvent xs
      | _ \<Rightarrow> [])"

text \<open>\<open>ScheduleProposal\<close>; an absent \<open>applied\<close> is \<open>False\<close>, absent counts are \<open>None\<close>.\<close>

record schedule_proposal =
  p_project :: ustring
  p_deadline :: "ustring option"
  p_items :: "proposal_item list"
  p_selected :: "bool list"
  p_applied :: bool
  p_appliedCount :: "nat option"
  p_skippedCount :: "nat option"

text \<open>A chat message (its grounding sources play no part in what follows).\<close>

record chat_message =
  m_id :: ustring
  m_text :: ustring
  m_isUser :: bool
  m_scheduleProposal :: "schedule_proposal option"

text \<open>The chatbot's state: its messages, the browser, and the number of identifiers
  drawn from \<open>nanoid\<close> so far.\<close>

record chatbot =
  messages :: "chat_message list"
  env :: browser
  idsDrawn :: nat

text \<open>\<open>proposal.items.filter((_, idx) => proposal.selected[idx])\<close>; an index beyond
  \<open>selected\<close> reads \<open>undefined\<close>, which is not selected.\<close>

definition selectedItemsOf :: "schedule_proposal \<Rightarrow> proposal_item list" where
  "selectedItemsOf p =
     map fst (filter (\<lambda>(item, idx). idx < length (p_selected p) \<and> p_selected p ! idx)
                (zip (p_items p) [0..<length (p_items p)]))"

text \<open>The loop over the selected items; \<open>nanoid k\<close> is the \<open>k\<close>-th identifier drawn.\<close>

fun addSelected :: "(nat \<Rightarrow> ustring) \<Rightarrow> nat \<Rightarrow> ustring set \<Rightarrow> proposal_item list \<Rightarrow> user_event list" where
  "addSelected nanoid k existingKeySet [] = []"
| "addSelected nanoid k existingKeySet (item # rest) =
     (if eventKey (i_date item) (i_title item) \<in> existingKeySet
      then addSelected nanoid k existingKeySet rest
      else \<lparr>ev_id = asc ''user-'' @ nanoid k, ev_date = i_date item, ev_title = i_title item,
            ev_category = i_category item, ev_source = AI\<rparr>
           # addSelected nanoid (Suc k)
               (insert (eventKey (i_date item) (i_title item)) existingKeySet) rest)"

definition joinLines :: "ustring list \<Rightarrow> ustring" where
  "joinLines ls = concat (case ls of [] \<Rightarrow> [] | l # rest \<Rightarrow> l # map (\<lambda>x. 10 # x) rest)"

text \<open>The summary appended to the message: "applied: N events were added to the
  calendar", the project and the deadline when there are any, then the added events, or
  the sentence saying that the chosen events were registered already.\<close>

definition applySummary :: "schedule_proposal \<Rightarrow> user_event list \<Rightarrow> ustring" where
  "applySummary proposal added =
     joinLines
       ([[51201, 50857, 32, 50756, 47308, 58, 32, 42, 42]
         @ showNat (length added) @
         [44060, 42, 42, 32, 51068, 51221, 51060, 32, 52888, 47536, 45908, 50640, 32, 52628,
         44032, 46096, 50612, 50836, 46]]
        @ (if p_project proposal \<noteq> []
           then [[45, 32, 54532, 47196, 51229, 53944, 58, 32, 42, 42] @ p_project proposal @ asc ''**'']
           else [])
        @ (case p_deadline proposal of
             None \<Rightarrow> []
           | Some d \<Rightarrow> if d \<noteq> [] then [[45, 32, 47560, 44048, 58, 32, 42, 42] @ d @ asc ''**''] else [])
        @ (if added \<noteq> []
           then [] # map (\<lambda>ev. asc ''- '' @ ev_date ev @ asc '' '' @ ev_title ev) added
           else [[],
                 [49440, 53469, 54620, 32, 51068, 51221, 51060, 32, 51060, 48120, 32, 46321,
                 47197, 46104, 50612, 32, 51080, 50612, 32, 49352, 47196, 32, 52628, 44032,
                 46108, 32, 51068, 51221, 51060, 32, 50630, 50612, 50836, 46]]))"

text \<open>
  \<open>applyScheduleProposal\<close>: the updater handed to \<open>setMessages\<close>, with the storage write
  and the notification it performs. \<open>Inl\<close> would be an error thrown by the storage helper.
\<close>

definition applyScheduleProposal :: "(nat \<Rightarrow> ustring) \<Rightarrow> chatbot \<Rightarrow> ustring \<Rightarrow> js_error + chatbot" where
  "applyScheduleProposal nanoid st messageId =
     (case find (\<lambda>msg. m_id msg = messageId) (messages st) of
        None \<Rightarrow> Inr st
      | Some target \<Rightarrow>
          (case m_scheduleProposal target of
             None \<Rightarrow> Inr st
           | Some proposal \<Rightarrow>
               if p_applied proposal then Inr st
               else
                 (let selectedItems = selectedItemsOf proposal
                  in if selectedItems = [] then Inr st
                     else
                       (let existing = Chatbot_loadUserEventsFromStorage (env st);
                            existingKeySet =
                              set (map (\<lambda>ev. eventKey (ev_date ev) (ev_title ev)) existing);
                            added = addSelected nanoid (idsDrawn st) existingKeySet selectedItems;
                            nextEvents = added @ existing
                        in case Chatbot_saveUserEventsToStorage (env st) nextEvents of
                             Inl e \<Rightarrow> Inl e
                           | Inr b \<Rightarrow>
                               Inr (st\<lparr>messages :=
                                          map (\<lambda>msg.
                                                 if m_id msg \<noteq> messageId then msg
                                                 else msg\<lparr>m_text :=
                                                            trim (m_text msg @ [10, 10]
                                                                  @ applySummary proposal added),
                                                          m_scheduleProposal :=
                                                            Some (proposal\<lparr>p_applied := True,
                                                              p_appliedCount := Some (length added),
                                                              p_skippedCount :=
                                                                Some (length selectedItems
                                                                      - length added)\<rparr>)\<rparr>)
                                              (messages st),
                                        env := dispatchEvent b USER_EVENTS_UPDATED_EVENT,
                                        idsDrawn := idsDrawn st + length added\<rparr>)))))"

text \<open>\<open>toggleScheduleProposalItem\<close>.\<close>

definition toggleScheduleProposalItem :: "chatbot \<Rightarrow> ustring \<Rightarrow> nat \<Rightarrow> chatbot" where
  "toggleScheduleProposalItem st messageId index =
     st\<lparr>messages :=
          map (\<lambda>msg.
                 if m_id msg \<noteq> messageId then msg
                 else (case m_scheduleProposal msg of
                         None \<Rightarrow> msg
                       | Some p \<Rightarrow>
                           if p_applied p then msg
                           else if index \<ge> length (p_selected p) then msg
                           else msg\<lparr>m_scheduleProposal :=
                                      Some (p\<lparr>p_selected :=
                                                (p_selected p)[index := \<not> p_selected p ! index]\<rparr>)\<rparr>))
              (messages st)\<rparr>"

section \<open>The calendar's event store (components/Calendar)\<close>

datatype event_kind = Builtin | User

record calendar_event =
  c_id :: ustring
  c_date :: ustring
  c_title :: ustring
  c_kind :: event_kind
  c_category :: ustring
  c_source :: event_source

text \<open>The three collections of the calendar's state that the operations below read and
  write (the selected event and the caches of generated descriptions are left out).\<close>

record calendar =
  userEvents :: "user_event list"
  baseEvents :: "calendar_event list"
  builtinEventOverrides :: overrides

definition emptyOverride :: override where
  "emptyOverride = \<lparr>o_date = None, o_title = None, o_category = None\<rparr>"

text \<open>\<open>!field\<close> on an optional string: absent or empty.\<close>

definition falsy :: "ustring option \<Rightarrow> bool" where
  "falsy v = (v = None \<or> v = Some [])"

text \<open>The override of a builtin event applied to it (\<open>baseEventsWithOverrides\<close>).\<close>

definition applyOverride :: "overrides \<Rightarrow> calendar_event \<Rightarrow> calendar_event" where
  "applyOverride ovs ev =
     (case map_of ovs (c_id ev) of
        None \<Rightarrow> ev
      | Some ov \<Rightarrow>
          ev\<lparr>c_date := (case o_date ov of Some d \<Rightarrow> d | None \<Rightarrow> c_date ev),
             c_title := (case o_title ov of Some t \<Rightarrow> t | None \<Rightarrow> c_title ev),
             c_category := (case o_category ov of Some g \<Rightarrow> g | None \<Rightarrow> c_category ev)\<rparr>)"

definition moveEventToDate :: "calendar \<Rightarrow> ustring \<Rightarrow> ustring \<Rightarrow> calendar" where
  "moveEventToDate c eventId nextDateKey =
     (if eventId = [] then c
      else if \<not> isDateKeyLike nextDateKey then c
      else
        (case find (\<lambda>ev. ev_id ev = eventId) (userEvents c) of
           Some userEvent \<Rightarrow>
             if ev_date userEvent = nextDateKey then c
             else c\<lparr>userEvents :=
                      map (\<lambda>ev. if ev_id ev = eventId then ev\<lparr>ev_date := nextDateKey\<rparr> else ev)
                        (userEvents c)\<rparr>
         | None \<Rightarrow>
             (case find (\<lambda>ev. c_id ev = eventId) (baseEvents c) of
                None \<Rightarrow> c
              | Some baseEvent \<Rightarrow>
                  if c_date baseEvent = nextDateKey
                  then c\<lparr>builtinEventOverrides :=
                           (case map_of (builtinEventOverrides c) eventId of
                              None \<Rightarrow> builtinEventOverrides c
                            | Some existing \<Rightarrow>
                                (let nextEntry = existing\<lparr>o_date := None\<rparr>
                                 in if falsy (o_date nextEntry) \<and> falsy (o_title nextEntry)
                                       \<and> falsy (o_category nextEntry)
                                    then AList.delete eventId (builtinEventOverrides c)
                                    else AList.update eventId nextEntry
                                           (builtinEventOverrides c)))\<rparr>
                  else c\<lparr>builtinEventOverrides :=
                           AList.update eventId
                             ((case map_of (builtinEventOverrides c) eventId of
                                 None \<Rightarrow> emptyOverride
                               | Some existing \<Rightarrow> existing)\<lparr>o_date := Some nextDateKey\<rparr>)
                             (builtinEventOverrides c)\<rparr>)))"

datatype editor_mode = CreateMode | EditMode

text \<open>The editor's draft. \<open>draftCategory\<close> is a category or the empty string of the
  option "no category chosen".\<close>

record draft =
  draftTitle :: ustring
  draftYear :: int
  draftMonth :: int
  draftDay :: int
  editorMode :: editor_mode
  draftId :: "ustring option"
  draftKind :: event_kind
  draftCategory :: ustring

text \<open>The four messages that \<open>handleSaveDraft\<close> can set as \<open>draftError\<close>.\<close>

datatype draft_error = TitleRequired | InvalidDate | CategoryRequired | NothingToEdit

definition isEventCategory :: "ustring \<Rightarrow> bool" where
  "isEventCategory v = (v \<in> set EVENT_CATEGORIES)"

text \<open>\<open>handleSaveDraft\<close>: \<open>Inl\<close> is the draft error set, \<open>Inr\<close> the calendar after the
  save; \<open>nanoid k\<close> is the identifier drawn for a created event.\<close>

definition handleSaveDraft :: "(nat \<Rightarrow> ustring) \<Rightarrow> nat \<Rightarrow> calendar \<Rightarrow> draft \<Rightarrow> draft_error + calendar" where
  "handleSaveDraft nanoid k c d =
     (let cleanedTitle = trim (draftTitle d)
      in if cleanedTitle = [] then Inl TitleRequired
         else
           (let dateKey = buildDateKeyFromParts (draftYear d) (draftMonth d) (draftDay d);
                dateObj = newDate (draftYear d) (draftMonth d - 1) (draftDay d)
            in if formatDateKey dateObj \<noteq> dateKey then Inl InvalidDate
               else if editorMode d = CreateMode then
                 (if isEventCategory (draftCategory d)
                  then Inr (c\<lparr>userEvents :=
                                \<lparr>ev_id = asc ''user-'' @ nanoid k, ev_date = dateKey,
                                 ev_title = cleanedTitle, ev_category = draftCategory d,
                                 ev_source = Manual\<rparr> # userEvents c\<rparr>)
                  else Inl CategoryRequired)
               else
                 (case draftId d of
                    None \<Rightarrow> Inl NothingToEdit
                  | Some did \<Rightarrow>
                      if did = [] then Inl NothingToEdit
                      else if draftKind d = User then
                        (if isEventCategory (draftCategory d)
                         then Inr (c\<lparr>userEvents :=
                                       map (\<lambda>ev. if ev_id ev = did
                                                  then ev\<lparr>ev_date := dateKey,
                                                         ev_title := cleanedTitle,
                                                         ev_category := draftCategory d\<rparr>
                                                  else ev)
                                         (userEvents c)\<rparr>)
                         else Inl CategoryRequired)
                      else
                        Inr (c\<lparr>builtinEventOverrides :=
                               (case find (\<lambda>ev. c_id ev = did) (baseEvents c) of
                                  None \<Rightarrow> builtinEventOverrides c
                                | Some base \<Rightarrow>
                                    (let e0 = (case map_of (builtinEventOverrides c) did of
                                                 None \<Rightarrow> emptyOverride
                                               | Some existing \<Rightarrow> existing);
                                         e1 = (if dateKey = c_date base
                                               then e0\<lparr>o_date := None\<rparr>
                                               else e0\<lparr>o_date := Some dateKey\<rparr>);
                                         e2 = (if cleanedTitle = c_title base
                                               then e1\<lparr>o_title := None\<rparr>
                                               else e1\<lparr>o_title := Some cleanedTitle\<rparr>);
                                         nextEntry =
                                              (if isEventCategory (draftCategory d)
                                               then e2\<lparr>o_category := Some (draftCategory d)\<rparr>
                                               else e2\<lparr>o_category := None\<rparr>)
                                     in if falsy (o_date nextEntry) \<and> falsy (o_title nextEntry)
                                           \<and> falsy (o_category nextEntry)
                                        then AList.delete did (builtinEventOverrides c)
                                        else AList.update did nextEntry
                                               (builtinEventOverrides c)))\<rparr>))))"

text \<open>\<open>openEditEditor\<close>: the draft the editor shows for an event, its fields taken from
  the event as displayed.\<close>

definition openEditEditor :: "calendar_event \<Rightarrow> draft" where
  "openEditEditor ev =
     \<lparr>draftTitle = c_title ev, draftYear = keyYear (c_date ev), draftMonth = keyMonth (c_date ev),
      draftDay = keyDay (c_date ev), editorMode = EditMode, draftId = Some (c_id ev),
      draftKind = c_kind ev, draftCategory = c_category ev\<rparr>"

text \<open>An override that holds at least one field.\<close>

definition nonEmptyOverride :: "override \<Rightarrow> bool" where
  "nonEmptyOverride ov = (\<not> (falsy (o_date ov) \<and> falsy (o_title ov) \<and> falsy (o_category ov)))"

section \<open>Backup export and import (components/ApiKeyModal)\<close>

definition yearFromDateKey :: "ustring \<Rightarrow> int option" where
  "yearFromDateKey dateKey =
     (if \<not> isDateKeyLike dateKey then None else Some (int (digitsToNat (take 4 dateKey))))"

text \<open>The year in a builtin identifier, by \<open>/^event-(\d{4})-/\<close>.\<close>

definition yearFromBuiltinEventId :: "ustring \<Rightarrow> int option" where
  "yearFromBuiltinEventId eventId =
     (if startsWith eventId (asc ''event-'')
         \<and> 5 \<le> length (drop 6 eventId)
         \<and> list_all isDigit (take 4 (drop 6 eventId))
         \<and> drop 6 eventId ! 4 = 45
      then Some (int (digitsToNat (take 4 (drop 6 eventId))))
      else None)"

text \<open>\<open>Object.entries\<close> of a parsed object: each key once, at its first position, with
  the value of its last occurrence in the text.\<close>

definition objEntries :: "(ustring \<times> json) list \<Rightarrow> (ustring \<times> json) list" where
  "objEntries kvs =
     List.map_filter (\<lambda>k. map_option (Pair k) (map_of (rev kvs) k))
       (rev (remdups (rev (map fst kvs))))"

text \<open>The validation of one stored user event, shared by \<open>loadStoredUserEvents\<close> and
  \<open>normalizeBackupPayload\<close>.\<close>

definition storedUserEventOf :: "json \<Rightarrow> user_event option" where
  "storedUserEventOf item =
     (case getProp item (asc ''id'') of
        Some (JStr i) \<Rightarrow>
          if i = [] then None
          else (case getProp item (asc ''date'') of
                  Some (JStr d) \<Rightarrow>
                    if \<not> isDateKeyLike d then None
                    else (case getProp item (asc ''title'') of
                            Some (JStr t) \<Rightarrow>
                              if trim t = [] then None
                              else Some \<lparr>ev_id = i, ev_date = d, ev_title = trim t,
                                      ev_category =
                                        (case asEventCategory (getProp item (asc ''category'')) of
                                           Some c \<Rightarrow> c | None \<Rightarrow> DEFAULT_EVENT_CATEGORY),
                                      ev_source =
                                        (case asCalendarEventSource
                                                (getProp item (asc ''source'')) of
                                           Some s \<Rightarrow> s | None \<Rightarrow> Manual)\<rparr>
                          | _ \<Rightarrow> None)
                | _ \<Rightarrow> None)
      | _ \<Rightarrow> None)"

definition loadStoredUserEvents :: "browser \<Rightarrow> user_event list" where
  "loadStoredUserEvents b =
     (case items (storage b) USER_EVENTS_STORAGE_KEY of
        Some (Some (JArr xs)) \<Rightarrow> List.map_filter storedUserEventOf xs
      | _ \<Rightarrow> [])"

text \<open>The override read from one member of the overrides object; \<open>None\<close> when the member
  is not an object.\<close>

definition storedOverrideOf :: "json \<Rightarrow> override option" where
  "storedOverrideOf v =
     (case v of
        JObj kvs \<Rightarrow>
          Some \<lparr>o_date = (case getProp v (asc ''date'') of
                           Some (JStr d) \<Rightarrow> if isDateKeyLike d then Some d else None
                         | _ \<Rightarrow> None),
                o_title = (case getProp v (asc ''title'') of
                            Some (JStr t) \<Rightarrow> if trim t \<noteq> [] then Some (trim t) else None
                          | _ \<Rightarrow> None),
                o_category = asEventCategory (getProp v (asc ''category''))\<rparr>
      | _ \<Rightarrow> None)"

definition loadStoredBuiltinOverrides :: "browser \<Rightarrow> overrides" where
  "loadStoredBuiltinOverrides b =
     (case items (storage b) BUILTIN_EVENT_OVERRIDES_STORAGE_KEY of
        Some (Some (JObj kvs)) \<Rightarrow>
          foldl (\<lambda>acc (eid, v).
                   case storedOverrideOf v of
                     None \<Rightarrow> acc
                   | Some next \<Rightarrow>
                       if nonEmptyOverride next then AList.update eid next acc else acc)
            [] (objEntries kvs)
      | _ \<Rightarrow> [])"

text \<open>\<open>(override.date && yearFromDateKey(override.date)) ?? yearFromBuiltinEventId(id)\<close>;
  an empty date gives the empty string itself, which is no year.\<close>

definition effectiveYear :: "ustring \<Rightarrow> override \<Rightarrow> int option" where
  "effectiveYear eid ov =
     (case o_date ov of
        None \<Rightarrow> yearFromBuiltinEventId eid
      | Some d \<Rightarrow>
          if d = [] then None
          else (case yearFromDateKey d of
                  Some y \<Rightarrow> Some y
                | None \<Rightarrow> yearFromBuiltinEventId eid))"

text \<open>A normalised backup file (its version is the constant 1; its creation time plays
  no part in the import).\<close>

record backup_file =
  b_year :: int
  b_userEvents :: "user_event list"
  b_overrides :: overrides

text \<open>\<open>a ?? b\<close>.\<close>

definition nullish :: "json option \<Rightarrow> json option \<Rightarrow> json option" where
  "nullish a b = (if a = None \<or> a = Some JNull then b else a)"

text \<open>\<open>Math.trunc\<close>.\<close>

definition truncNum :: "rat \<Rightarrow> int" where
  "truncNum q = (if 0 \<le> q then \<lfloor>q\<rfloor> else \<lceil>q\<rceil>)"

text \<open>The messages of the errors thrown by \<open>normalizeBackupPayload\<close>: "the backup file's
  format is not right" (alone, or followed by the name of the field), and "unsupported
  backup file version".\<close>

definition formatError :: "string \<Rightarrow> js_error" where
  "formatError field =
     Err ([48177, 50629, 32, 54028, 51068, 32, 54805, 49885, 51060, 32, 50732, 48148, 47476,
          51648, 32, 50506, 49845, 45768, 45796, 46]
          @ asc field)"

definition versionError :: js_error where
  "versionError =
     Err [51648, 50896, 54616, 51648, 32, 50506, 45716, 32, 48177, 50629, 32, 54028, 51068,
         32, 48260, 51204, 51077, 45768, 45796, 46]"

definition normalizeBackupPayload :: "json \<Rightarrow> js_error + backup_file" where
  "normalizeBackupPayload payload =
     (case payload of
        JObj members \<Rightarrow>
          (let version = getProp payload (asc ''version'');
               versionOk = (case version of
                              None \<Rightarrow> True
                            | Some (JNum v) \<Rightarrow> v = 0 \<or> v = 1
                            | Some _ \<Rightarrow> False)
           in if \<not> versionOk then Inl versionError
              else
                (case getProp payload (asc ''year'') of
                   Some (JNum year) \<Rightarrow>
                     (let normalizedYear = truncNum year;
                          userEventsRaw = nullish (getProp payload (asc ''userEvents''))
                                                  (getProp payload (asc ''events''));
                          builtinOverridesRaw =
                            nullish (nullish (getProp payload (asc ''builtinEventOverrides''))
                                             (getProp payload (asc ''builtinOverrides'')))
                                    (getProp payload (asc ''overrides''))
                      in case userEventsRaw of
                           Some (JArr evs) \<Rightarrow>
                             (case builtinOverridesRaw of
                                None \<Rightarrow>
                                  Inr \<lparr>b_year = normalizedYear,
                                       b_userEvents =
                                         filter (\<lambda>ev. yearFromDateKey (ev_date ev)
                                                         = Some normalizedYear)
                                           (List.map_filter storedUserEventOf evs),
                                       b_overrides = []\<rparr>
                              | Some (JObj kvs) \<Rightarrow>
                                  Inr \<lparr>b_year = normalizedYear,
                                       b_userEvents =
                                         filter (\<lambda>ev. yearFromDateKey (ev_date ev)
                                                         = Some normalizedYear)
                                           (List.map_filter storedUserEventOf evs),
                                       b_overrides =
                                         foldl (\<lambda>acc (eid, v).
                                                  case storedOverrideOf v of
                                                    None \<Rightarrow> acc
                                                  | Some next \<Rightarrow>
                                                      if effectiveYear eid next
                                                           \<noteq> Some normalizedYear then acc
                                                      else if nonEmptyOverride next
                                                        then AList.update eid next acc
                                                      else acc)
                                           [] (objEntries kvs)\<rparr>
                              | Some _ \<Rightarrow> Inl (formatError '' (builtinEventOverrides)''))
                         | _ \<Rightarrow> Inl (formatError '' (userEvents)''))
                 | _ \<Rightarrow> Inl (formatError '' (year)'')))
      | _ \<Rightarrow> Inl (formatError []))"

text \<open>The spread \<open>{ ...remainingOverrides, ...backup.builtinEventOverrides }\<close>.\<close>

definition mergeOverrides :: "overrides \<Rightarrow> overrides \<Rightarrow> overrides" where
  "mergeOverrides remaining imported =
     foldl (\<lambda>acc (eid, ov). AList.update eid ov acc) remaining imported"

text \<open>What the dialog shows after an import: the year and the two counts, or the error.\<close>

datatype transfer_status = ImportSuccess int nat nat | ImportError js_error

text \<open>
  \<open>handleImportBackupFile\<close>, from the file's text as \<open>JSON.parse\<close> reads it (\<open>None\<close> when
  it throws). The whole body is inside one \<open>try\<close>; an error thrown at any step ends the
  import with the error status, the browser being as the steps before left it.
\<close>

definition handleImportBackupFile :: "browser \<Rightarrow> json option \<Rightarrow> browser \<times> transfer_status" where
  "handleImportBackupFile b fileJson =
     (case fileJson of
        None \<Rightarrow> (b, ImportError (Err (asc ''SyntaxError'')))
      | Some parsed \<Rightarrow>
          (case normalizeBackupPayload parsed of
             Inl e \<Rightarrow> (b, ImportError e)
           | Inr backup \<Rightarrow>
               (let existingUserEvents = loadStoredUserEvents b;
                    remainingUserEvents =
                      filter (\<lambda>ev. yearFromDateKey (ev_date ev) \<noteq> Some (b_year backup))
                        existingUserEvents
                in case saveStoredUserEvents b (b_userEvents backup @ remainingUserEvents) of
                     Inl e \<Rightarrow> (b, ImportError e)
                   | Inr b1 \<Rightarrow>
                       (let existingOverrides = loadStoredBuiltinOverrides b1;
                            remainingOverrides =
                              filter (\<lambda>(eid, ov). effectiveYear eid ov \<noteq> Some (b_year backup))
                                existingOverrides
                        in case saveStoredBuiltinOverrides b1
                                  (mergeOverrides remainingOverrides (b_overrides backup)) of
                             Inl e \<Rightarrow> (b1, ImportError e)
                           | Inr b2 \<Rightarrow>
                               (b2, ImportSuccess (b_year backup)
                                      (length (b_userEvents backup))
                                      (length (b_overrides backup)))))))"

text \<open>The shape of what the two loaders return, and the backup normaliser with them: a
  user event with an identifier, a date of the form \<open>dddd-dd-dd\<close>, a trimmed title that
  is not empty and one of the categories; an override whose present fields are of that
  shape. What is written from such values is read back as it was.\<close>

definition normalEvent :: "user_event \<Rightarrow> bool" where
  "normalEvent ev =
     (ev_id ev \<noteq> [] \<and> isDateKeyLike (ev_date ev) \<and> trim (ev_title ev) = ev_title ev
      \<and> ev_title ev \<noteq> [] \<and> ev_category ev \<in> set EVENT_CATEGORIES)"

definition normalOverride :: "override \<Rightarrow> bool" where
  "normalOverride ov =
     ((case o_date ov of None \<Rightarrow> True | Some d \<Rightarrow> isDateKeyLike d)
      \<and> (case o_title ov of None \<Rightarrow> True | Some t \<Rightarrow> trim t = t \<and> t \<noteq> [])
      \<and> (case o_category ov of None \<Rightarrow> True | Some c \<Rightarrow> c \<in> set EVENT_CATEGORIES))"


section \<open>The OpenRouter transport (utils/openRouter)\<close>

text \<open>
  What one \<open>fetch\<close> of the chat-completions endpoint gives: a rejection (network failure),
  or a response with its \<open>ok\<close> flag, its status code and its body as \<open>JSON.parse\<close> reads
  it (\<open>None\<close> when \<open>JSON.parse\<close> throws).
\<close>

datatype fetch_result =
    Rejected js_error
  | Response bool nat "json option"

definition DEFAULT_FREE_MODELS :: "ustring list" where
  "DEFAULT_FREE_MODELS =
     [asc ''mistralai/mistral-7b-instruct:free'',
      asc ''meta-llama/llama-3.2-3b-instruct:free'',
      asc ''google/gemma-3-4b-it:free'',
      asc ''openai/gpt-oss-20b:free'']"

text \<open>The generic text built from the status code: the Korean for "OpenRouter request
  failed", then \<open>(status) - model=candidate\<close>.\<close>

definition statusMessage :: "nat \<Rightarrow> ustring \<Rightarrow> ustring" where
  "statusMessage status candidateModel =
     [79, 112, 101, 110, 82, 111, 117, 116, 101, 114, 32, 50836, 52397, 32, 49892, 54056, 32, 40]
     @ showNat status @ asc '') - model='' @ candidateModel"

text \<open>
  The \<open>try\<close> block of the non-OK branch. Every path through it throws: \<open>JSON.parse\<close>
  throws a syntax error, or the block throws \<open>new Error(message || generic)\<close>. The value
  is the error thrown inside the block.
\<close>

definition thrownInTry :: "nat \<Rightarrow> ustring \<Rightarrow> json option \<Rightarrow> js_error" where
  "thrownInTry status candidateModel body =
     (case body of
        None \<Rightarrow> Err (asc ''SyntaxError'')
      | Some parsed \<Rightarrow>
          (let message = chain (chain (Some parsed) (asc ''error'')) (asc ''message'')
           in if truthy message
              then (case message of Some (JStr s) \<Rightarrow> Err s | Some v \<Rightarrow> ErrOf v
                    | None \<Rightarrow> Err (statusMessage status candidateModel))
              else Err (statusMessage status candidateModel)))"

text \<open>
  The \<open>catch\<close> clause that encloses the block binds no variable and throws the generic
  error, whatever was thrown inside the block.
\<close>

definition nonOkError :: "nat \<Rightarrow> ustring \<Rightarrow> json option \<Rightarrow> js_error" where
  "nonOkError status candidateModel body =
     (case thrownInTry status candidateModel body of
        _ \<Rightarrow> Err (statusMessage status candidateModel))"

text \<open>The body of the loop for one candidate: \<open>Inr\<close> is the returned content, \<open>Inl\<close>
  the error caught into \<open>lastError\<close>.\<close>

fun attempt :: "fetch_result \<Rightarrow> ustring \<Rightarrow> js_error + ustring" where
  "attempt (Rejected e) candidateModel = Inl e"
| "attempt (Response ok status body) candidateModel =
     (if \<not> ok then Inl (nonOkError status candidateModel body)
      else (case body of
              None \<Rightarrow> Inl (Err (asc ''SyntaxError''))
            | Some parsed \<Rightarrow>
                (case chain (chain (chain0 (chain (Some parsed) (asc ''choices'')))
                               (asc ''message'')) (asc ''content'') of
                   Some (JStr content) \<Rightarrow>
                     if content = []
                     then Inl (Err [79, 112, 101, 110, 82, 111, 117, 116, 101, 114, 32, 51025,
                                    45813, 51012, 32, 54644, 49437, 54616, 51648, 32, 47803,
                                    54664, 49845, 45768, 45796, 46])
                     else Inr content
                 | _ \<Rightarrow> Inl (Err [79, 112, 101, 110, 82, 111, 117, 116, 101, 114, 32, 51025,
                                   45813, 51012, 32, 54644, 49437, 54616, 51648, 32, 47803,
                                   54664, 49845, 45768, 45796, 46]))))"

definition modelsToTry :: "ustring option \<Rightarrow> ustring list" where
  "modelsToTry model =
     (case model of
        None \<Rightarrow> DEFAULT_FREE_MODELS
      | Some m \<Rightarrow> if m \<noteq> [] then m # DEFAULT_FREE_MODELS else DEFAULT_FREE_MODELS)"

text \<open>
  The \<open>for\<close> loop. The network is a function of the request's position in the call and
  of the candidate model (key, messages and temperature are the same in every request).
  The result carries the list of models requested, in order.
\<close>

fun tryModels :: "(nat \<Rightarrow> ustring \<Rightarrow> fetch_result) \<Rightarrow> nat \<Rightarrow> ustring list \<Rightarrow> js_error option
                  \<Rightarrow> (js_error + ustring) \<times> ustring list" where
  "tryModels net i [] lastError =
     (Inl (case lastError of
             Some e \<Rightarrow> e
           | None \<Rightarrow> Err [79, 112, 101, 110, 82, 111, 117, 116, 101, 114, 32, 50836, 52397,
                          32, 49892, 54056]), [])"
| "tryModels net i (candidateModel # rest) lastError =
     (case attempt (net i candidateModel) candidateModel of
        Inr content \<Rightarrow> (Inr content, [candidateModel])
      | Inl e \<Rightarrow>
          (case tryModels net (Suc i) rest (Some e) of
             (r, requested) \<Rightarrow> (r, candidateModel # requested)))"

definition openRouterChatCompletion ::
    "(nat \<Rightarrow> ustring \<Rightarrow> fetch_result) \<Rightarrow> ustring option \<Rightarrow> (js_error + ustring) \<times> ustring list" where
  "openRouterChatCompletion net model = tryModels net 0 (modelsToTry model) None"

section \<open>Concrete inputs of the examples\<close>

text \<open>The payload of the spec's deduplication example: project "hyeonsumak" (banner), two
  events of the same date and the same task "pumui" (approval request).\<close>

definition examplePayload :: json where
  "examplePayload =
     JObj [(asc ''project'', JStr [54788, 49688, 47561]),
           (asc ''events'',
            JArr [JObj [(asc ''date'', JStr (asc ''2025-01-01'')), (asc ''task'', JStr [54408, 51032])],
                  JObj [(asc ''date'', JStr (asc ''2025-01-01'')), (asc ''task'', JStr [54408, 51032])]])]"


text \<open>A chatbot state with one message that carries a proposal of three items (A, A and
  B), a storage that holds one event with the key of B and accepts every write, and an
  identifier source.\<close>

definition exampleNanoid :: "nat \<Rightarrow> ustring" where
  "exampleNanoid k = asc ''abcdefghi'' @ [48 + k]"

definition exampleStoredEvent :: user_event where
  "exampleStoredEvent =
     \<lparr>ev_id = asc ''user-existing01'', ev_date = asc ''2025-12-24'', ev_title = asc ''B'',
      ev_category = DEFAULT_EVENT_CATEGORY, ev_source = Manual\<rparr>"

definition exampleBrowser :: browser where
  "exampleBrowser =
     \<lparr>storage = \<lparr>items = (\<lambda>k. if k = USER_EVENTS_STORAGE_KEY
                                then Some (Some (JArr [userEventJson exampleStoredEvent]))
                                else None),
                  writable = (\<lambda>its k v. True)\<rparr>,
      dispatched = []\<rparr>"

definition exampleItemA :: proposal_item where
  "exampleItemA = \<lparr>i_date = asc ''2025-12-19'', i_title = asc ''A'',
                    i_category = DEFAULT_EVENT_CATEGORY\<rparr>"

definition exampleItemB :: proposal_item where
  "exampleItemB = \<lparr>i_date = asc ''2025-12-24'', i_title = asc ''B'',
                    i_category = DEFAULT_EVENT_CATEGORY\<rparr>"

definition exampleProposal :: "bool list \<Rightarrow> schedule_proposal" where
  "exampleProposal sel =
     \<lparr>p_project = asc ''P'', p_deadline = None,
      p_items = [exampleItemA, exampleItemA, exampleItemB], p_selected = sel,
      p_applied = False, p_appliedCount = None, p_skippedCount = None\<rparr>"

definition exampleMessage :: "bool list \<Rightarrow> chat_message" where
  "exampleMessage sel =
     \<lparr>m_id = asc ''ai-1'', m_text = asc ''hello'', m_isUser = False,
      m_scheduleProposal = Some (exampleProposal sel)\<rparr>"

definition exampleChat :: "bool list \<Rightarrow> chatbot" where
  "exampleChat sel = \<lparr>messages = [exampleMessage sel], env = exampleBrowser, idsDrawn = 0\<rparr>"

text \<open>A calendar with one builtin event of the budget category and no override.\<close>

definition exampleBase :: calendar_event where
  "exampleBase =
     \<lparr>c_id = asc ''event-2025-3-2-Budgetpla-1'', c_date = asc ''2025-03-02'',
      c_title = asc ''Budget plan'', c_kind = Builtin, c_category = [50696, 49328],
      c_source = Manual\<rparr>"

definition exampleCalendar :: calendar where
  "exampleCalendar = \<lparr>userEvents = [], baseEvents = [exampleBase], builtinEventOverrides = []\<rparr>"

text \<open>A browser that holds two user events, of 2024 and of 2025, and one override of the
  builtin event above that moves it to January 2026; a backup file of the year 2025 with
  one event of 2025, one of 2024 and an override that renames the same builtin event; and
  a backup file of version 2.\<close>

definition storedEvent2024 :: user_event where
  "storedEvent2024 =
     \<lparr>ev_id = asc ''user-old2024'', ev_date = asc ''2024-05-01'', ev_title = asc ''Old'',
      ev_category = DEFAULT_EVENT_CATEGORY, ev_source = Manual\<rparr>"

definition importedEvent :: user_event where
  "importedEvent =
     \<lparr>ev_id = asc ''user-backup01'', ev_date = asc ''2025-03-10'', ev_title = asc ''Restored'',
      ev_category = DEFAULT_EVENT_CATEGORY, ev_source = AI\<rparr>"

definition movedOverride :: override where
  "movedOverride = \<lparr>o_date = Some (asc ''2026-01-05''), o_title = None, o_category = None\<rparr>"

definition importedOverride :: override where
  "importedOverride = \<lparr>o_date = None, o_title = Some (asc ''Renamed''), o_category = None\<rparr>"


definition backupFile :: json where
  "backupFile =
     JObj [(asc ''version'', JNum 1), (asc ''year'', JNum 2025),
           (asc ''userEvents'', JArr [userEventJson importedEvent, userEventJson storedEvent2024]),
           (asc ''builtinEventOverrides'',
            JObj [(c_id exampleBase, overrideJson importedOverride)])]"


text \<open>A browser whose storage refuses every write (private browsing, quota exceeded).\<close>

definition fullBrowser :: browser where
  "fullBrowser = \<lparr>storage = \<lparr>items = (\<lambda>k. None), writable = (\<lambda>its k v. False)\<rparr>,
                   dispatched = []\<rparr>"











text \<open>A payload whose only task is the project's own prefix "P:", the item the pipeline
  makes of it (titled "P: "), a chat with two messages that both carry this proposal with
  its item selected, over an empty storage that accepts every write, and the event
  created for the item with the \<open>k\<close>-th identifier and a given title.\<close>

definition blankTaskPayload :: json where
  "blankTaskPayload =
     JObj [(asc ''project'', JStr (asc ''P'')),
           (asc ''events'',
            JArr [JObj [(asc ''date'', JStr (asc ''2025-12-19'')), (asc ''task'', JStr (asc ''P:''))]])]"

definition blankTaskItem :: proposal_item where
  "blankTaskItem = \<lparr>i_date = asc ''2025-12-19'', i_title = asc ''P: '',
                     i_category = DEFAULT_EVENT_CATEGORY\<rparr>"

definition blankTaskMessage :: "string \<Rightarrow> chat_message" where
  "blankTaskMessage mid =
     \<lparr>m_id = asc mid, m_text = asc ''hello'', m_isUser = False,
      m_scheduleProposal =
        Some \<lparr>p_project = asc ''P'', p_deadline = None, p_items = [blankTaskItem],
              p_selected = [True], p_applied = False, p_appliedCount = None,
              p_skippedCount = None\<rparr>\<rparr>"

definition blankTaskChat :: chatbot where
  "blankTaskChat =
     \<lparr>messages = [blankTaskMessage ''ai-1'', blankTaskMessage ''ai-2''],
      env = \<lparr>storage = \<lparr>items = (\<lambda>k. None), writable = (\<lambda>its k v. True)\<rparr>, dispatched = []\<rparr>,
      idsDrawn = 0\<rparr>"

definition blankTaskEvent :: "nat \<Rightarrow> ustring \<Rightarrow> user_event" where
  "blankTaskEvent k title =
     \<lparr>ev_id = asc ''user-'' @ exampleNanoid k, ev_date = asc ''2025-12-19'', ev_title = title,
      ev_category = DEFAULT_EVENT_CATEGORY, ev_source = AI\<rparr>"

section \<open>Properties of the OpenRouter transport\<close>

lemma nonOkError_generic:
  "nonOkError status candidateModel body = Err (statusMessage status candidateModel)"
  by (simp add: nonOkError_def)

lemma tryModels_requested_prefix:
  "tryModels net i ms le = (res, requested) \<Longrightarrow>
     (case res of
        Inr content \<Rightarrow>
          (\<exists>k < length ms. requested = take (Suc k) ms
             \<and> attempt (net (i + k) (ms ! k)) (ms ! k) = Inr content
             \<and> (\<forall>j < k. isl (attempt (net (i + j) (ms ! j)) (ms ! j))))
      | Inl e \<Rightarrow>
          requested = ms
          \<and> (\<forall>j < length ms. isl (attempt (net (i + j) (ms ! j)) (ms ! j)))
          \<and> (ms \<noteq> [] \<longrightarrow>
                 attempt (net (i + (length ms - 1)) (last ms)) (last ms) = Inl e))"
proof (induction ms arbitrary: i le res requested)
  case Nil
  then show ?case by (auto split: option.splits)
next
  case (Cons m ms)
  show ?case
  proof (cases "attempt (net i m) m")
    case (Inr content)
    with Cons.prems have "res = Inr content" "requested = [m]" by auto
    with Inr show ?thesis by (auto intro: exI[of _ 0])
  next
    case (Inl e)
    obtain r rq where rec: "tryModels net (Suc i) ms (Some e) = (r, rq)"
      by (cases "tryModels net (Suc i) ms (Some e)")
    with Inl Cons.prems have res: "res = r" and rq: "requested = m # rq" by auto
    note ih = Cons.IH[OF rec]
    show ?thesis
    proof (cases r)
      case (Inr content)
      with ih obtain k where k: "k < length ms" "rq = take (Suc k) ms"
        "attempt (net (Suc i + k) (ms ! k)) (ms ! k) = Inr content"
        "\<forall>j < k. isl (attempt (net (Suc i + j) (ms ! j)) (ms ! j))"
        by auto
      have "\<forall>j < Suc k. isl (attempt (net (i + j) ((m # ms) ! j)) ((m # ms) ! j))"
      proof (intro allI impI)
        fix j assume "j < Suc k"
        then show "isl (attempt (net (i + j) ((m # ms) ! j)) ((m # ms) ! j))"
          using Inl k(4) by (cases j) auto
      qed
      with k res rq Inr show ?thesis
        by (auto intro!: exI[of _ "Suc k"])
    next
      case (Inl e')
      with ih have a: "rq = ms"
        and b: "\<forall>j < length ms. isl (attempt (net (Suc i + j) (ms ! j)) (ms ! j))"
        and c: "ms \<noteq> [] \<longrightarrow> attempt (net (Suc i + (length ms - 1)) (last ms)) (last ms) = Inl e'"
        by auto
      have d: "\<forall>j < length (m # ms). isl (attempt (net (i + j) ((m # ms) ! j)) ((m # ms) ! j))"
      proof (intro allI impI)
        fix j assume "j < length (m # ms)"
        then show "isl (attempt (net (i + j) ((m # ms) ! j)) ((m # ms) ! j))"
          using \<open>attempt (net i m) m = Inl e\<close> b by (cases j) auto
      qed
      have e': "attempt (net (i + (length (m # ms) - 1)) (last (m # ms))) (last (m # ms)) = Inl e'"
      proof (cases "ms = []")
        case True
        with rec Inl \<open>attempt (net i m) m = Inl e\<close> show ?thesis by auto
      next
        case False
        with c show ?thesis by (cases ms) auto
      qed
      from a d e' res rq Inl show ?thesis by simp
    qed
  qed
qed


text \<open>
  Claim C6. For a non-OK response whose body is a JSON object with a non-empty
  \<open>error.message\<close> string, the spec wants the surfaced error to carry that message. The
  code builds that error inside a \<open>try\<close> whose own \<open>catch\<close> replaces it: at status 401
  with the body \<open>{"error":{"message":"Invalid API key"}}\<close> the error thrown inside the
  block carries the structured message, the error the attempt leaves in \<open>lastError\<close> is
  the generic status text, and that is what the call surfaces when every candidate
  receives this response.
\<close>

theorem openRouter_structured_message_discarded:
  "thrownInTry 401 (asc ''m'')
     (Some (JObj [(asc ''error'', JObj [(asc ''message'', JStr (asc ''Invalid API key''))])]))
     = Err (asc ''Invalid API key'')
   \<and> attempt (Response False 401
        (Some (JObj [(asc ''error'', JObj [(asc ''message'', JStr (asc ''Invalid API key''))])])))
        (asc ''m'')
     = Inl (Err (statusMessage 401 (asc ''m'')))
   \<and> statusMessage 401 (asc ''m'') \<noteq> asc ''Invalid API key''
   \<and> fst (openRouterChatCompletion
        (\<lambda>i m. Response False 401
           (Some (JObj [(asc ''error'', JObj [(asc ''message'', JStr (asc ''Invalid API key''))])])))
        None)
     = Inl (Err (statusMessage 401 (asc ''openai/gpt-oss-20b:free'')))"
  by (simp add: thrownInTry_def nonOkError_def statusMessage_def asc_def
      openRouterChatCompletion_def modelsToTry_def DEFAULT_FREE_MODELS_def)

text \<open>
  Claim C7. The candidates are the caller's model (when one is given) followed by the four
  literal fallback models. A call that returns a content has requested exactly the
  candidates up to the first one whose attempt succeeds, in order, and returns that
  attempt's content; a call that throws has requested every candidate, each attempt has
  failed, and the error thrown is the last attempt's.
\<close>

theorem openRouter_tries_candidates_in_order:
  "openRouterChatCompletion net model = (res, requested) \<Longrightarrow>
     modelsToTry model =
       (case model of None \<Rightarrow> [] | Some m \<Rightarrow> if m \<noteq> [] then [m] else [])
       @ [asc ''mistralai/mistral-7b-instruct:free'',
          asc ''meta-llama/llama-3.2-3b-instruct:free'',
          asc ''google/gemma-3-4b-it:free'',
          asc ''openai/gpt-oss-20b:free'']
     \<and> (\<forall>content. res = Inr content \<longrightarrow>
          (\<exists>k < length (modelsToTry model).
             requested = take (Suc k) (modelsToTry model)
             \<and> attempt (net k (modelsToTry model ! k)) (modelsToTry model ! k) = Inr content
             \<and> (\<forall>j < k. isl (attempt (net j (modelsToTry model ! j)) (modelsToTry model ! j)))))
     \<and> (\<forall>e. res = Inl e \<longrightarrow>
          requested = modelsToTry model
          \<and> (\<forall>j < length (modelsToTry model).
                isl (attempt (net j (modelsToTry model ! j)) (modelsToTry model ! j)))
          \<and> attempt (net (length (modelsToTry model) - 1) (last (modelsToTry model)))
                (last (modelsToTry model)) = Inl e)"
proof -
  assume run: "openRouterChatCompletion net model = (res, requested)"
  have cands: "modelsToTry model =
       (case model of None \<Rightarrow> [] | Some m \<Rightarrow> if m \<noteq> [] then [m] else [])
       @ [asc ''mistralai/mistral-7b-instruct:free'',
          asc ''meta-llama/llama-3.2-3b-instruct:free'',
          asc ''google/gemma-3-4b-it:free'',
          asc ''openai/gpt-oss-20b:free'']"
    by (simp add: modelsToTry_def DEFAULT_FREE_MODELS_def split: option.splits)
  then have ne: "modelsToTry model \<noteq> []" by simp
  from run have "tryModels net 0 (modelsToTry model) None = (res, requested)"
    by (simp add: openRouterChatCompletion_def)
  from tryModels_requested_prefix[OF this] ne
  have "(\<forall>content. res = Inr content \<longrightarrow>
          (\<exists>k < length (modelsToTry model).
             requested = take (Suc k) (modelsToTry model)
             \<and> attempt (net k (modelsToTry model ! k)) (modelsToTry model ! k) = Inr content
             \<and> (\<forall>j < k. isl (attempt (net j (modelsToTry model ! j)) (modelsToTry model ! j)))))
     \<and> (\<forall>e. res = Inl e \<longrightarrow>
          requested = modelsToTry model
          \<and> (\<forall>j < length (modelsToTry model).
                isl (attempt (net j (modelsToTry model ! j)) (modelsToTry model ! j)))
          \<and> attempt (net (length (modelsToTry model) - 1) (last (modelsToTry model)))
                (last (modelsToTry model)) = Inl e)"
    by (cases res) auto
  with cands show ?thesis by blast
qed

text \<open>
  A run of the fallback: no model is given, the first request is rejected by the network
  and the second is answered with a content, so two models are requested and the second
  one's content is returned.
\<close>

theorem openRouter_tries_candidates_in_order_witness:
  "openRouterChatCompletion
      (\<lambda>i m. if i = 0 then Rejected (Err (asc ''Failed to fetch''))
              else Response True 200
                (Some (JObj [(asc ''choices'',
                   JArr [JObj [(asc ''message'', JObj [(asc ''content'', JStr (asc ''hi''))])]])])))
      None
     = (Inr (asc ''hi''),
        [asc ''mistralai/mistral-7b-instruct:free'', asc ''meta-llama/llama-3.2-3b-instruct:free''])
   \<and> modelsToTry None =
        [asc ''mistralai/mistral-7b-instruct:free'',
         asc ''meta-llama/llama-3.2-3b-instruct:free'',
         asc ''google/gemma-3-4b-it:free'',
         asc ''openai/gpt-oss-20b:free'']"
proof -
  let ?net = "\<lambda>(i::nat) (m::ustring). if i = 0 then Rejected (Err (asc ''Failed to fetch''))
              else Response True 200
                (Some (JObj [(asc ''choices'',
                   JArr [JObj [(asc ''message'', JObj [(asc ''content'', JStr (asc ''hi''))])]])]))"
  have run: "openRouterChatCompletion ?net None
     = (Inr (asc ''hi''),
        [asc ''mistralai/mistral-7b-instruct:free'', asc ''meta-llama/llama-3.2-3b-instruct:free''])"
    by (simp add: openRouterChatCompletion_def modelsToTry_def DEFAULT_FREE_MODELS_def asc_def)
  from openRouter_tries_candidates_in_order[OF run] run show ?thesis by simp
qed
section \<open>Properties of the schedule proposal pipeline\<close>

lemma compareDateKey_less: "(compareDateKey a b < 0) = (a < b)"
  by (simp add: compareDateKey_def)

lemma compareDateKey_greater: "(compareDateKey a b > 0) = (b < a)"
  by (auto simp: compareDateKey_def)

lemma clampMinDateKey_max: "clampMinDateKey a m = max a m"
  by (auto simp: clampMinDateKey_def compareDateKey_less max_def)

lemma clampMaxDateKey_min: "clampMaxDateKey a m = min a m"
  by (auto simp: clampMaxDateKey_def compareDateKey_greater min_def)

lemma dedupe_first_occurrence:
  "dedupe seen xs =
     map ((!) xs)
       (filter (\<lambda>i. eventKey (i_date (xs ! i)) (i_title (xs ! i))
                    \<notin> seen \<union> (\<lambda>x. eventKey (i_date x) (i_title x)) ` set (take i xs))
          [0..<length xs])"
proof (induction xs arbitrary: seen)
  case Nil
  then show ?case by simp
next
  case (Cons x xs)
  let ?key = "\<lambda>x. eventKey (i_date x) (i_title x)"
  let ?P = "\<lambda>s ys i. ?key (ys ! i) \<notin> s \<union> ?key ` set (take i ys)"
  have upt: "[0..<length (x # xs)] = 0 # map Suc [0..<length xs]"
    by (simp add: upt_conv_Cons map_Suc_upt del: upt_Suc)
  have tail: "filter (?P seen (x # xs) \<circ> Suc) [0..<length xs]
                = filter (?P (insert (?key x) seen) xs) [0..<length xs]"
    by (intro filter_cong) auto
  have rhs: "map ((!) (x # xs)) (filter (?P seen (x # xs)) [0..<length (x # xs)])
               = (if ?key x \<in> seen then [] else [x])
                 @ map ((!) xs) (filter (?P (insert (?key x) seen) xs) [0..<length xs])"
    unfolding upt filter.simps filter_map tail by (simp add: comp_def)
  show ?case
  proof (cases "?key x \<in> seen")
    case True
    then have "insert (?key x) seen = seen" by auto
    with True show ?thesis unfolding rhs by (simp add: Cons.IH)
  next
    case False
    then show ?thesis unfolding rhs by (simp add: Cons.IH)
  qed
qed

lemma dedupe_keys_notin:
  "x \<in> set (dedupe seen xs) \<Longrightarrow> eventKey (i_date x) (i_title x) \<notin> seen"
  by (induction xs arbitrary: seen) (auto split: if_splits)

lemma dedupe_distinct:
  "distinct (map (\<lambda>x. eventKey (i_date x) (i_title x)) (dedupe seen xs))"
proof (induction xs arbitrary: seen)
  case Nil
  then show ?case by simp
next
  case (Cons x xs)
  let ?k = "eventKey (i_date x) (i_title x)"
  have "?k \<notin> set (map (\<lambda>x. eventKey (i_date x) (i_title x)) (dedupe (insert ?k seen) xs))"
  proof
    assume "?k \<in> set (map (\<lambda>x. eventKey (i_date x) (i_title x)) (dedupe (insert ?k seen) xs))"
    then obtain y where y: "y \<in> set (dedupe (insert ?k seen) xs)"
      and k: "eventKey (i_date y) (i_title y) = ?k" by auto
    from dedupe_keys_notin[OF y] k show False by simp
  qed
  with Cons.IH show ?case by simp
qed


lemma respread_titles: "map i_title (respread desired order idxs its) = map i_title its"
proof (induction idxs arbitrary: order its)
  case Nil
  then show ?case by simp
next
  case (Cons idx idxs)
  have "map i_title (its[idx := (its ! idx)\<lparr>i_date := desired order\<rparr>]) = map i_title its"
    by (cases "idx < length its") (simp_all add: map_update list_update_same_conv list_update_beyond)
  with Cons.IH show ?case by simp
qed

lemma respreadPreWork_titles: "map i_title (respreadPreWork t s its) = map i_title its"
  by (simp add: respreadPreWork_def Let_def respread_titles)

lemma respreadPostWork_titles: "map i_title (respreadPostWork t e its) = map i_title its"
  by (simp add: respreadPostWork_def Let_def respread_titles)

lemma clampItemToWindow_title: "i_title (clampItemToWindow t s e item) = i_title item"
  by (simp add: clampItemToWindow_def Let_def)

lemma windowItems_titles:
  "map i_title (respreadPostWork t e (respreadPreWork t s (map (clampItemToWindow t s e) its)))
     = map i_title its"
  by (simp add: respreadPreWork_titles respreadPostWork_titles clampItemToWindow_title comp_def)

lemma initialProposedItems_titles:
  "map i_title (initialProposedItems t deduped) = map i_title (take 4 deduped)"
  by (simp add: initialProposedItems_def comp_def)

lemma sort_key_titles:
  "mset (map i_title (sort_key i_date xs)) = mset (map i_title xs)"
  by simp

lemma proposedItems_titles:
  "mset (map i_title (proposedItems u t w p))
     = mset (map i_title (take 4 (dedupe {} (candidateEvents (resolveProject p u) p))))"
proof (cases w)
  case None
  then show ?thesis
    by (simp only: proposedItems_def Let_def sort_key_titles option.case
          initialProposedItems_titles)
next
  case (Some win)
  then show ?thesis
    by (simp only: proposedItems_def Let_def sort_key_titles option.case
          windowItems_titles initialProposedItems_titles if_distrib[of "map i_title"] if_cancel
          split: if_splits)
qed

lemma proposedItems_length:
  "length (proposedItems u t w p)
     = min 4 (length (dedupe {} (candidateEvents (resolveProject p u) p)))"
proof -
  have "length (proposedItems u t w p) = size (mset (map i_title (proposedItems u t w p)))"
    by simp
  also have "\<dots> = length (take 4 (dedupe {} (candidateEvents (resolveProject p u) p)))"
    by (simp only: proposedItems_titles) simp
  finally show ?thesis by (simp add: min.commute)
qed

lemma DEFAULT_in_EVENT_CATEGORIES: "DEFAULT_EVENT_CATEGORY \<in> set EVENT_CATEGORIES"
  by (simp add: DEFAULT_EVENT_CATEGORY_def EVENT_CATEGORIES_def)

lemma candidateEvent_None:
  "\<not> isValidDateKeyValue (chain (Some ev) (asc ''date''))
     \<or> resolvedTitle project (taskCandidateOf ev) = []
   \<Longrightarrow> candidateEvent project ev = None"
  by (auto simp: candidateEvent_def Let_def)


lemma asEventCategory_fallback:
  "asEventCategory v = (case v of Some (JStr s) \<Rightarrow> if s \<in> set EVENT_CATEGORIES then Some s else None | _ \<Rightarrow> None)"
  by (simp add: asEventCategory_def)

lemmas date_eval = isValidDateKey_def keyYear_def keyMonth_def keyDay_def digitsToNat_def
  newDate_def normDay.simps daysInMonth_def isLeapYear_def isDigit_def

lemma valid_2025_01_01: "isValidDateKey (asc ''2025-01-01'')"
  by (simp add: date_eval asc_def)

lemma example_project: "resolveProject examplePayload u = [54788, 49688, 47561]"
  by (simp add: examplePayload_def resolveProject_def trim_def isWhiteSpace_def asc_def)

lemma example_candidate:
  "candidateEvent [54788, 49688, 47561]
     (JObj [(asc ''date'', JStr (asc ''2025-01-01'')), (asc ''task'', JStr [54408, 51032])])
   = Some \<lparr>i_date = asc ''2025-01-01'',
           i_title = [54788, 49688, 47561, 58, 32, 54408, 51032],
           i_category = DEFAULT_EVENT_CATEGORY\<rparr>"
  using valid_2025_01_01
  by (simp add: candidateEvent_def taskCandidateOf_def resolvedTitle_def asEventCategory_def
      isValidDateKeyValue_def trim_def isWhiteSpace_def asc_def)

lemma example_deduped:
  "dedupe {} (candidateEvents [54788, 49688, 47561] examplePayload)
   = [\<lparr>i_date = asc ''2025-01-01'',
        i_title = [54788, 49688, 47561, 58, 32, 54408, 51032],
        i_category = DEFAULT_EVENT_CATEGORY\<rparr>]"
proof -
  have "candidateEvents [54788, 49688, 47561] examplePayload
        = [\<lparr>i_date = asc ''2025-01-01'',
        i_title = [54788, 49688, 47561, 58, 32, 54408, 51032],
        i_category = DEFAULT_EVENT_CATEGORY\<rparr>, \<lparr>i_date = asc ''2025-01-01'',
        i_title = [54788, 49688, 47561, 58, 32, 54408, 51032],
        i_category = DEFAULT_EVENT_CATEGORY\<rparr>]"
    unfolding candidateEvents_def examplePayload_def
    by (simp add: List.map_filter_def example_candidate)
  then show ?thesis by simp
qed

lemma example_single: "length (proposedItems u t w examplePayload) = 1"
  by (simp add: proposedItems_length example_project example_deduped)






lemma candidateEvent_accepts:
  assumes "chain (Some ev) (asc ''date'') = Some (JStr d)" "isValidDateKey d"
    and "taskCandidateOf ev \<noteq> []" "resolvedTitle project (taskCandidateOf ev) \<noteq> []"
  shows "candidateEvent project ev
         = Some \<lparr>i_date = d, i_title = resolvedTitle project (taskCandidateOf ev),
                 i_category =
                   (case chain (Some ev) (asc ''category'') of
                      Some (JStr c) \<Rightarrow> if c \<in> set EVENT_CATEGORIES then c else [44592, 53440]
                    | _ \<Rightarrow> [44592, 53440])\<rparr>"
  using assms
  by (simp add: candidateEvent_def Let_def isValidDateKeyValue_def asEventCategory_def
        DEFAULT_EVENT_CATEGORY_def split: option.splits json.splits)









lemma proposedItems_no_window:
  "proposedItems u t None p
   = sort_key i_date
       (map (\<lambda>item. item\<lparr>i_date := max (i_date item) t\<rparr>)
          (take 4 (dedupe {} (candidateEvents (resolveProject p u) p))))"
  by (simp only: proposedItems_def initialProposedItems_def clampMinDateKey_max Let_def
        option.case)








section \<open>Properties of the window inference\<close>















lemma base_record: "(dt :: js_date) = \<lparr>getFullYear = getFullYear dt, getMonth = getMonth dt, getDate = getDate dt\<rparr>"
  by simp









section \<open>Properties of the clamping to the execution window\<close>

lemma clampItemToWindow_date:
  "i_date (clampItemToWindow t s e item) =
     max (if isPreWorkTitle (i_title item)
          then min (i_date item) (max (shiftDateKeyByDays s (- 1)) t)
          else if isPostWorkTitle (i_title item) then max (i_date item) (max e t)
          else min (max (i_date item) s) e) t"
proof -
  have a: "(if compareDateKey d s < 0 then s else d) = max d s" for d s
    by (auto simp: compareDateKey_less max_def)
  have b: "(if compareDateKey d e > 0 then e else d) = min d e" for d e
    by (auto simp: compareDateKey_greater min_def)
  show ?thesis
    by (simp add: clampItemToWindow_def Let_def preWorkLatestKey_def postWorkEarliestKey_def
          clampMinDateKey_max clampMaxDateKey_min a b)
qed

lemma window_pre:
  "isPreWorkTitle (i_title item) \<Longrightarrow>
     i_date (clampItemToWindow t s e item) \<le> max (shiftDateKeyByDays s (- 1)) t"
  by (simp add: clampItemToWindow_date min_le_iff_disj)

lemma window_pre_strict:
  "isPreWorkTitle (i_title item) \<Longrightarrow> t \<le> shiftDateKeyByDays s (- 1) \<Longrightarrow>
     i_date (clampItemToWindow t s e item) \<le> shiftDateKeyByDays s (- 1)"
  using window_pre[of item t s e] by (simp add: max_absorb1)




subsection \<open>Date keys and the order of the days\<close>




















subsection \<open>The dates of an inferred window\<close>




subsection \<open>The two re-spreads keep what the clamp established\<close>













subsection \<open>Three payloads under the window of the example\<close>










































section \<open>Properties of applying a proposal\<close>

lemma addSelected_dedupe:
  "map (\<lambda>ev. \<lparr>i_date = ev_date ev, i_title = ev_title ev, i_category = ev_category ev\<rparr>)
       (addSelected nanoid k keys sel) = dedupe keys sel"
  by (induction sel arbitrary: k keys) simp_all

lemma addSelected_source: "ev \<in> set (addSelected nanoid k keys sel) \<Longrightarrow> ev_source ev = AI"
  by (induction sel arbitrary: k keys) (auto split: if_splits)

lemma addSelected_ids:
  "map ev_id (addSelected nanoid k keys sel)
     = map (\<lambda>j. asc ''user-'' @ nanoid j) [k..<k + length (addSelected nanoid k keys sel)]"
proof (induction sel arbitrary: k keys)
  case Nil
  then show ?case by simp
next
  case (Cons item rest)
  show ?case
  proof (cases "eventKey (i_date item) (i_title item) \<in> keys")
    case True
    then show ?thesis using Cons.IH[of k keys] by simp
  next
    case False
    let ?rest = "addSelected nanoid (Suc k) (insert (eventKey (i_date item) (i_title item)) keys) rest"
    have u: "[k..<Suc (k + length ?rest)] = k # [Suc k..<Suc (k + length ?rest)]"
      by (rule upt_conv_Cons) simp
    from False show ?thesis
      using Cons.IH[of "Suc k" "insert (eventKey (i_date item) (i_title item)) keys"]
      by (simp add: u del: upt_Suc)
  qed
qed

lemma addSelected_keys:
  "map (\<lambda>ev. eventKey (ev_date ev) (ev_title ev)) (addSelected nanoid k keys sel)
     = map (\<lambda>x. eventKey (i_date x) (i_title x)) (dedupe keys sel)"
  by (induction sel arbitrary: k keys) simp_all

lemma dedupe_key_set:
  "(\<lambda>x. eventKey (i_date x) (i_title x)) ` set (dedupe keys sel)
     = (\<lambda>x. eventKey (i_date x) (i_title x)) ` set sel - keys"
  by (induction sel arbitrary: keys) auto

lemma Chatbot_save_Inr:
  "\<exists>b'. Chatbot_saveUserEventsToStorage b evs = Inr b'"
  by (simp add: Chatbot_saveUserEventsToStorage_def split: sum.splits)

lemma Chatbot_save_items:
  "Chatbot_saveUserEventsToStorage b evs = Inr b' \<Longrightarrow>
     dispatched b' = dispatched b
     \<and> items (storage b') USER_EVENTS_STORAGE_KEY =
         (if writable (storage b) (items (storage b)) USER_EVENTS_STORAGE_KEY
               (JArr (map userEventJson evs))
          then Some (Some (JArr (map userEventJson evs)))
          else items (storage b) USER_EVENTS_STORAGE_KEY)"
  by (auto simp: Chatbot_saveUserEventsToStorage_def setItem_def split: sum.splits if_splits)


lemma find_map_same_id:
  assumes "\<And>m. m_id (f m) = m_id m"
  shows "find (\<lambda>m. m_id m = mid) (map f xs) = map_option f (find (\<lambda>m. m_id m = mid) xs)"
  by (induction xs) (simp_all add: assms)

lemma addSelected_fields:
  "map (\<lambda>ev. (ev_date ev, ev_title ev, ev_category ev, ev_source ev))
       (addSelected nanoid k keys sel)
   = map (\<lambda>x. (i_date x, i_title x, i_category x, AI)) (dedupe keys sel)"
  by (induction sel arbitrary: k keys) simp_all

lemma addSelected_first_occurrence:
  "map (\<lambda>ev. (ev_date ev, ev_title ev, ev_category ev, ev_source ev))
       (addSelected nanoid k keys sel)
   = map (\<lambda>i. (i_date (sel ! i), i_title (sel ! i), i_category (sel ! i), AI))
       (filter (\<lambda>i. eventKey (i_date (sel ! i)) (i_title (sel ! i))
                    \<notin> keys \<union> (\<lambda>x. eventKey (i_date x) (i_title x)) ` set (take i sel))
          [0..<length sel])"
  by (simp only: addSelected_fields dedupe_first_occurrence[of keys sel] map_map comp_def)

lemma addSelected_distinct:
  "distinct (map (\<lambda>ev. eventKey (ev_date ev) (ev_title ev)) (addSelected nanoid k keys sel))"
  by (simp only: addSelected_keys dedupe_distinct)

lemma addSelected_key_set:
  "(\<lambda>ev. eventKey (ev_date ev) (ev_title ev)) ` set (addSelected nanoid k keys sel)
     = (\<lambda>x. eventKey (i_date x) (i_title x)) ` set sel - keys"
proof -
  have "(\<lambda>ev. eventKey (ev_date ev) (ev_title ev)) ` set (addSelected nanoid k keys sel)
        = set (map (\<lambda>ev. eventKey (ev_date ev) (ev_title ev)) (addSelected nanoid k keys sel))"
    by simp
  also have "\<dots> = (\<lambda>x. eventKey (i_date x) (i_title x)) ` set (dedupe keys sel)"
    by (simp only: addSelected_keys set_map)
  finally show ?thesis by (simp only: dedupe_key_set)
qed

text \<open>
  What the call does, stated over the events as \<open>loadUserEventsFromStorage\<close> returns them.
  On a message whose proposal is not yet applied and has at least one selected item, the
  call returns normally and has created one event of source \<open>ai\<close> for exactly those
  selected items whose key is neither a key of a loaded event nor the key of an earlier
  selected item; the list written is the created events followed by the loaded ones, the
  change notification is dispatched, every message of that id carries the proposal marked
  applied with \<open>appliedCount\<close> the number of created events, and a second call on the
  resulting state returns that state.
\<close>

lemma applyScheduleProposal_commit:
  assumes found: "find (\<lambda>msg. m_id msg = messageId) (messages st) = Some target"
    and hasP: "m_scheduleProposal target = Some proposal"
    and notApplied: "\<not> p_applied proposal"
    and selecting: "selectedItemsOf proposal \<noteq> []"
  shows "\<exists>st' added.
     applyScheduleProposal nanoid st messageId = Inr st'
     \<and> map (\<lambda>ev. (ev_date ev, ev_title ev, ev_category ev, ev_source ev)) added
         = map (\<lambda>i. (i_date (selectedItemsOf proposal ! i), i_title (selectedItemsOf proposal ! i),
                      i_category (selectedItemsOf proposal ! i), AI))
             (filter (\<lambda>i. eventKey (i_date (selectedItemsOf proposal ! i))
                               (i_title (selectedItemsOf proposal ! i))
                          \<notin> (\<lambda>ev. eventKey (ev_date ev) (ev_title ev))
                               ` set (Chatbot_loadUserEventsFromStorage (env st))
                            \<union> (\<lambda>x. eventKey (i_date x) (i_title x))
                               ` set (take i (selectedItemsOf proposal)))
                [0..<length (selectedItemsOf proposal)])
     \<and> distinct (map (\<lambda>ev. eventKey (ev_date ev) (ev_title ev)) added)
     \<and> (\<lambda>ev. eventKey (ev_date ev) (ev_title ev)) ` set added
         = (\<lambda>x. eventKey (i_date x) (i_title x)) ` set (selectedItemsOf proposal)
           - (\<lambda>ev. eventKey (ev_date ev) (ev_title ev))
               ` set (Chatbot_loadUserEventsFromStorage (env st))
     \<and> map ev_id added
         = map (\<lambda>j. asc ''user-'' @ nanoid j) [idsDrawn st..<idsDrawn st + length added]
     \<and> items (storage (env st')) USER_EVENTS_STORAGE_KEY
         = (if writable (storage (env st)) (items (storage (env st))) USER_EVENTS_STORAGE_KEY
                 (JArr (map userEventJson (added @ Chatbot_loadUserEventsFromStorage (env st))))
            then Some (Some (JArr (map userEventJson
                                     (added @ Chatbot_loadUserEventsFromStorage (env st)))))
            else items (storage (env st)) USER_EVENTS_STORAGE_KEY)
     \<and> dispatched (env st') = dispatched (env st) @ [USER_EVENTS_UPDATED_EVENT]
     \<and> length (messages st') = length (messages st)
     \<and> (\<forall>i < length (messages st).
           if m_id (messages st ! i) = messageId
           then m_id (messages st' ! i) = messageId
                \<and> m_scheduleProposal (messages st' ! i)
                    = Some (proposal\<lparr>p_applied := True,
                         p_appliedCount := Some (length added),
                         p_skippedCount := Some (length (selectedItemsOf proposal) - length added)\<rparr>)
           else messages st' ! i = messages st ! i)
     \<and> applyScheduleProposal nanoid st' messageId = Inr st'"
proof -
  let ?sel = "selectedItemsOf proposal"
  let ?existing = "Chatbot_loadUserEventsFromStorage (env st)"
  let ?keys = "set (map (\<lambda>ev. eventKey (ev_date ev) (ev_title ev)) ?existing)"
  let ?added = "addSelected nanoid (idsDrawn st) ?keys ?sel"
  let ?p' = "proposal\<lparr>p_applied := True, p_appliedCount := Some (length ?added),
                p_skippedCount := Some (length ?sel - length ?added)\<rparr>"
  let ?f = "\<lambda>msg. if m_id msg \<noteq> messageId then msg
                 else msg\<lparr>m_text := trim (m_text msg @ [10, 10] @ applySummary proposal ?added),
                          m_scheduleProposal := Some ?p'\<rparr>"
  obtain b where save: "Chatbot_saveUserEventsToStorage (env st) (?added @ ?existing) = Inr b"
    using Chatbot_save_Inr by blast
  let ?st' = "st\<lparr>messages := map ?f (messages st),
                  env := dispatchEvent b USER_EVENTS_UPDATED_EVENT,
                  idsDrawn := idsDrawn st + length ?added\<rparr>"
  have run: "applyScheduleProposal nanoid st messageId = Inr ?st'"
    using found hasP notApplied selecting save by (simp add: applyScheduleProposal_def Let_def)
  have keys: "?keys = (\<lambda>ev. eventKey (ev_date ev) (ev_title ev)) ` set ?existing" by simp
  have c1: "map (\<lambda>ev. (ev_date ev, ev_title ev, ev_category ev, ev_source ev)) ?added
         = map (\<lambda>i. (i_date (?sel ! i), i_title (?sel ! i), i_category (?sel ! i), AI))
             (filter (\<lambda>i. eventKey (i_date (?sel ! i)) (i_title (?sel ! i))
                          \<notin> (\<lambda>ev. eventKey (ev_date ev) (ev_title ev)) ` set ?existing
                            \<union> (\<lambda>x. eventKey (i_date x) (i_title x)) ` set (take i ?sel))
                [0..<length ?sel])"
    unfolding keys by (rule addSelected_first_occurrence)
  have c2: "distinct (map (\<lambda>ev. eventKey (ev_date ev) (ev_title ev)) ?added)"
    by (rule addSelected_distinct)
  have c3: "(\<lambda>ev. eventKey (ev_date ev) (ev_title ev)) ` set ?added
         = (\<lambda>x. eventKey (i_date x) (i_title x)) ` set ?sel
           - (\<lambda>ev. eventKey (ev_date ev) (ev_title ev)) ` set ?existing"
    unfolding keys by (rule addSelected_key_set)
  have c4: "map ev_id ?added
         = map (\<lambda>j. asc ''user-'' @ nanoid j) [idsDrawn st..<idsDrawn st + length ?added]"
    by (rule addSelected_ids)
  have c5: "items (storage (env ?st')) USER_EVENTS_STORAGE_KEY
         = (if writable (storage (env st)) (items (storage (env st))) USER_EVENTS_STORAGE_KEY
                 (JArr (map userEventJson (?added @ ?existing)))
            then Some (Some (JArr (map userEventJson (?added @ ?existing))))
            else items (storage (env st)) USER_EVENTS_STORAGE_KEY)"
    using Chatbot_save_items[OF save] by (simp add: dispatchEvent_def)
  have c6: "dispatched (env ?st') = dispatched (env st) @ [USER_EVENTS_UPDATED_EVENT]"
    using Chatbot_save_items[OF save] by (simp add: dispatchEvent_def)
  have c7: "length (messages ?st') = length (messages st)" by simp
  have c8: "\<forall>i < length (messages st).
           if m_id (messages st ! i) = messageId
           then m_id (messages ?st' ! i) = messageId
                \<and> m_scheduleProposal (messages ?st' ! i) = Some ?p'
           else messages ?st' ! i = messages st ! i"
    by simp
  have idf: "m_id (?f m) = m_id m" for m by simp
  from found have tid: "m_id target = messageId"
    by (auto simp: find_Some_iff)
  have "find (\<lambda>msg. m_id msg = messageId) (messages ?st') = Some (?f target)"
    using find_map_same_id[of ?f messageId "messages st", OF idf] found by simp
  moreover have "m_scheduleProposal (?f target) = Some ?p'" using tid by simp
  ultimately have c9: "applyScheduleProposal nanoid ?st' messageId = Inr ?st'"
    by (simp add: applyScheduleProposal_def)
  from run c1 c2 c3 c4 c5 c6 c7 c8 c9 show ?thesis by blast
qed

lemma Chatbot_save_eq:
  "Chatbot_saveUserEventsToStorage b evs
   = Inr (if writable (storage b) (items (storage b)) USER_EVENTS_STORAGE_KEY
               (JArr (map userEventJson evs))
          then b\<lparr>storage := (storage b)\<lparr>items := (items (storage b))
                   (USER_EVENTS_STORAGE_KEY \<mapsto> Some (JArr (map userEventJson evs)))\<rparr>\<rparr>
          else b)"
  by (simp add: Chatbot_saveUserEventsToStorage_def setItem_def)

lemma applyScheduleProposal_run:
  assumes found: "find (\<lambda>msg. m_id msg = messageId) (messages st) = Some target"
    and hasP: "m_scheduleProposal target = Some proposal"
    and notApplied: "\<not> p_applied proposal"
    and selecting: "selectedItemsOf proposal \<noteq> []"
    and added: "added = addSelected nanoid (idsDrawn st)
                  (set (map (\<lambda>ev. eventKey (ev_date ev) (ev_title ev))
                          (Chatbot_loadUserEventsFromStorage (env st))))
                  (selectedItemsOf proposal)"
    and accepts: "writable (storage (env st)) (items (storage (env st))) USER_EVENTS_STORAGE_KEY
                    (JArr (map userEventJson (added @ Chatbot_loadUserEventsFromStorage (env st))))"
  shows "\<exists>st'. applyScheduleProposal nanoid st messageId = Inr st'
     \<and> items (storage (env st'))
         = (items (storage (env st)))
             (USER_EVENTS_STORAGE_KEY \<mapsto>
                Some (JArr (map userEventJson
                              (added @ Chatbot_loadUserEventsFromStorage (env st)))))
     \<and> writable (storage (env st')) = writable (storage (env st))
     \<and> dispatched (env st') = dispatched (env st) @ [USER_EVENTS_UPDATED_EVENT]
     \<and> idsDrawn st' = idsDrawn st + length added
     \<and> map m_id (messages st') = map m_id (messages st)
     \<and> map m_scheduleProposal (messages st')
         = map (\<lambda>msg. if m_id msg \<noteq> messageId then m_scheduleProposal msg
                       else Some (proposal\<lparr>p_applied := True,
                              p_appliedCount := Some (length added),
                              p_skippedCount :=
                                Some (length (selectedItemsOf proposal) - length added)\<rparr>))
             (messages st)
     \<and> filter (\<lambda>msg. m_id msg \<noteq> messageId) (messages st')
         = filter (\<lambda>msg. m_id msg \<noteq> messageId) (messages st)"
proof -
  let ?sel = "selectedItemsOf proposal"
  let ?existing = "Chatbot_loadUserEventsFromStorage (env st)"
  let ?p' = "proposal\<lparr>p_applied := True, p_appliedCount := Some (length added),
                p_skippedCount := Some (length ?sel - length added)\<rparr>"
  let ?f = "\<lambda>msg. if m_id msg \<noteq> messageId then msg
                 else msg\<lparr>m_text := trim (m_text msg @ [10, 10] @ applySummary proposal added),
                          m_scheduleProposal := Some ?p'\<rparr>"
  let ?b = "(env st)\<lparr>storage := (storage (env st))\<lparr>items := (items (storage (env st)))
                   (USER_EVENTS_STORAGE_KEY \<mapsto>
                      Some (JArr (map userEventJson (added @ ?existing))))\<rparr>\<rparr>"
  have save: "Chatbot_saveUserEventsToStorage (env st) (added @ ?existing) = Inr ?b"
    using accepts by (simp add: Chatbot_save_eq)
  let ?st' = "st\<lparr>messages := map ?f (messages st),
                  env := dispatchEvent ?b USER_EVENTS_UPDATED_EVENT,
                  idsDrawn := idsDrawn st + length added\<rparr>"
  have run: "applyScheduleProposal nanoid st messageId = Inr ?st'"
    using found hasP notApplied selecting save
    unfolding added by (simp add: applyScheduleProposal_def Let_def)
  have c1: "items (storage (env ?st'))
         = (items (storage (env st)))
             (USER_EVENTS_STORAGE_KEY \<mapsto> Some (JArr (map userEventJson (added @ ?existing))))"
    by (simp add: dispatchEvent_def)
  have c2: "writable (storage (env ?st')) = writable (storage (env st))"
    by (simp add: dispatchEvent_def)
  have c3: "dispatched (env ?st') = dispatched (env st) @ [USER_EVENTS_UPDATED_EVENT]"
    by (simp add: dispatchEvent_def)
  have c4: "idsDrawn ?st' = idsDrawn st + length added" by simp
  have c5: "map m_id (messages ?st') = map m_id (messages st)" by (simp add: comp_def)
  have c6: "map m_scheduleProposal (messages ?st')
         = map (\<lambda>msg. if m_id msg \<noteq> messageId then m_scheduleProposal msg else Some ?p')
             (messages st)"
    by (simp add: comp_def)
  have c7: "filter (\<lambda>msg. m_id msg \<noteq> messageId) (messages ?st')
         = filter (\<lambda>msg. m_id msg \<noteq> messageId) (messages st)"
  proof -
    have "map ?f (filter (\<lambda>msg. m_id msg \<noteq> messageId) (messages st))
          = filter (\<lambda>msg. m_id msg \<noteq> messageId) (messages st)"
      by (rule map_idI) simp
    then show ?thesis by (simp add: filter_map comp_def)
  qed
  from run c1 c2 c3 c4 c5 c6 c7 show ?thesis by blast
qed

lemma valid_2025_12_19: "isValidDateKey (asc ''2025-12-19'')"
  by (simp add: date_eval asc_def)

lemma blankTask_project: "resolveProject blankTaskPayload u = asc ''P''"
  by (simp add: blankTaskPayload_def resolveProject_def trim_def isWhiteSpace_def asc_def)

lemma blankTask_title: "resolvedTitle (asc ''P'') (asc ''P:'') = asc ''P: ''"
  by (simp add: resolvedTitle_def trim_def asc_def)

lemma blankTask_candidate:
  "candidateEvent (asc ''P'')
     (JObj [(asc ''date'', JStr (asc ''2025-12-19'')), (asc ''task'', JStr (asc ''P:''))])
   = Some blankTaskItem"
proof -
  let ?ev = "JObj [(asc ''date'', JStr (asc ''2025-12-19'')), (asc ''task'', JStr (asc ''P:''))]"
  have d: "chain (Some ?ev) (asc ''date'') = Some (JStr (asc ''2025-12-19''))"
    by (simp add: asc_def)
  have t: "taskCandidateOf ?ev = asc ''P:''"
    by (simp add: taskCandidateOf_def trim_def isWhiteSpace_def asc_def)
  have c: "chain (Some ?ev) (asc ''category'') = None" by (simp add: asc_def)
  have ne: "asc ''P:'' \<noteq> []" "asc ''P: '' \<noteq> []" by (simp_all add: asc_def)
  from candidateEvent_accepts[of ?ev "asc ''2025-12-19''" "asc ''P''", OF d valid_2025_12_19]
  show ?thesis
    unfolding t blankTask_title c using ne
    by (simp add: blankTaskItem_def DEFAULT_EVENT_CATEGORY_def)
qed

lemma blankTask_proposed:
  "proposedItems u (asc ''2025-11-01'') None blankTaskPayload = [blankTaskItem]"
proof -
  have ce: "candidateEvents (asc ''P'') blankTaskPayload = [blankTaskItem]"
    unfolding candidateEvents_def blankTaskPayload_def
    by (simp add: List.map_filter_def blankTask_candidate)
  have lt: "asc ''2025-11-01'' \<le> asc ''2025-12-19''" by (simp add: asc_def)
  show ?thesis
    unfolding proposedItems_no_window blankTask_project ce
    using lt by (simp add: blankTaskItem_def max_absorb1)
qed

lemma trim_blankTask_title: "trim (asc ''P: '') = asc ''P:''"
  by (simp add: trim_def isWhiteSpace_def asc_def)

lemma blankTask_read_back:
  "Chatbot_parseUserEvent (userEventJson (blankTaskEvent k (asc ''P: '')))
   = Some (blankTaskEvent k (asc ''P:''))"
proof -
  have g: "getProp (userEventJson ev) (asc ''id'') = Some (JStr (ev_id ev))"
    "getProp (userEventJson ev) (asc ''date'') = Some (JStr (ev_date ev))"
    "getProp (userEventJson ev) (asc ''title'') = Some (JStr (ev_title ev))"
    "getProp (userEventJson ev) (asc ''category'') = Some (JStr (ev_category ev))"
    "getProp (userEventJson ev) (asc ''source'') = Some (JStr (sourceName (ev_source ev)))" for ev
    by (simp_all add: userEventJson_def asc_def)
  have ne: "asc ''P:'' \<noteq> []" by (simp add: asc_def)
  show ?thesis
    using valid_2025_12_19 DEFAULT_in_EVENT_CATEGORIES ne
    by (simp add: Chatbot_parseUserEvent_def g blankTaskEvent_def trim_blankTask_title
          asEventCategory_def asCalendarEventSource_def sourceName_def)
       (simp add: asc_def)
qed

lemma blankTask_keys_differ:
  "eventKey (asc ''2025-12-19'') (asc ''P: '') \<noteq> eventKey (asc ''2025-12-19'') (asc ''P:'')"
  by (simp add: eventKey_def asc_def)

lemma blankTask_found:
  "find (\<lambda>msg. m_id msg = asc ''ai-1'') (messages blankTaskChat) = Some (blankTaskMessage ''ai-1'')"
  by (simp add: blankTaskChat_def blankTaskMessage_def)

lemma blankTask_selected:
  "selectedItemsOf \<lparr>p_project = asc ''P'', p_deadline = None, p_items = [blankTaskItem],
              p_selected = [True], p_applied = False, p_appliedCount = None,
              p_skippedCount = None\<rparr> = [blankTaskItem]"
  by (simp add: selectedItemsOf_def)

text \<open>
  Claim C1. The spec wants a selected item added only when its (date, title) is not among
  the persisted user events. The call compares the key of the item with the keys of the
  events as the loader returns them, and the loader trims the stored titles, while the
  call writes the title of an item as it is. The pipeline builds the title
  \<open>`${project}: ${normalizedTask}`\<close>; for the payload of project "P" whose only task is
  "P:" the normalized task is empty and the title is "P: ", with a trailing blank. Two
  messages carry this proposal. Applying the first writes the event with the title "P: ".
  Applying the second reads that event back with the title "P:", does not find the key of
  its item among the loaded keys, and adds the same date and title again: storage then
  holds the event twice and the second proposal reports one event added.
\<close>

theorem apply_adds_stored_event_again:
  "proposedItems [] (asc ''2025-11-01'') None blankTaskPayload = [blankTaskItem]
   \<and> (\<exists>st1 st2.
        applyScheduleProposal exampleNanoid blankTaskChat (asc ''ai-1'') = Inr st1
        \<and> items (storage (env st1)) USER_EVENTS_STORAGE_KEY
            = Some (Some (JArr [userEventJson (blankTaskEvent 0 (asc ''P: ''))]))
        \<and> Chatbot_loadUserEventsFromStorage (env st1) = [blankTaskEvent 0 (asc ''P:'')]
        \<and> map (\<lambda>msg. map_option p_items (m_scheduleProposal msg)) (messages st1)
            = [Some [blankTaskItem], Some [blankTaskItem]]
        \<and> map (\<lambda>msg. map_option p_applied (m_scheduleProposal msg)) (messages st1)
            = [Some True, Some False]
        \<and> applyScheduleProposal exampleNanoid st1 (asc ''ai-2'') = Inr st2
        \<and> items (storage (env st2)) USER_EVENTS_STORAGE_KEY
            = Some (Some (JArr [userEventJson (blankTaskEvent 1 (asc ''P: '')),
                                userEventJson (blankTaskEvent 0 (asc ''P:''))]))
        \<and> map (\<lambda>msg. map_option p_appliedCount (m_scheduleProposal msg)) (messages st2)
            = [Some (Some 1), Some (Some 1)])"
proof -
  let ?p = "\<lparr>p_project = asc ''P'', p_deadline = None, p_items = [blankTaskItem],
              p_selected = [True], p_applied = False, p_appliedCount = None,
              p_skippedCount = None\<rparr>"
  let ?e0 = "blankTaskEvent 0 (asc ''P: '')"
  let ?e0t = "blankTaskEvent 0 (asc ''P:'')"
  let ?e1 = "blankTaskEvent 1 (asc ''P: '')"
  have ids: "asc ''ai-1'' \<noteq> asc ''ai-2''" by (simp add: asc_def)
  \<comment> \<open>the first call\<close>
  have hasP1: "m_scheduleProposal (blankTaskMessage ''ai-1'') = Some ?p"
    by (simp add: blankTaskMessage_def)
  have na: "\<not> p_applied ?p" by simp
  have sel: "selectedItemsOf ?p \<noteq> []" by (simp add: blankTask_selected)
  have load0: "Chatbot_loadUserEventsFromStorage (env blankTaskChat) = []"
    by (simp add: Chatbot_loadUserEventsFromStorage_def blankTaskChat_def)
  have added0: "[?e0] = addSelected exampleNanoid (idsDrawn blankTaskChat)
                  (set (map (\<lambda>ev. eventKey (ev_date ev) (ev_title ev))
                          (Chatbot_loadUserEventsFromStorage (env blankTaskChat))))
                  (selectedItemsOf ?p)"
    unfolding load0 blankTask_selected
    by (simp add: blankTaskItem_def blankTaskEvent_def blankTaskChat_def)
  have w0: "writable (storage (env blankTaskChat)) = (\<lambda>its k v. True)"
    by (simp add: blankTaskChat_def)
  have acc0: "writable (storage (env blankTaskChat)) (items (storage (env blankTaskChat)))
                USER_EVENTS_STORAGE_KEY
                (JArr (map userEventJson
                         ([?e0] @ Chatbot_loadUserEventsFromStorage (env blankTaskChat))))"
    by (simp add: w0)
  from applyScheduleProposal_run[OF blankTask_found hasP1 na sel added0 acc0]
  obtain st1 where run1: "applyScheduleProposal exampleNanoid blankTaskChat (asc ''ai-1'') = Inr st1"
    and it1: "items (storage (env st1))
         = (items (storage (env blankTaskChat)))
             (USER_EVENTS_STORAGE_KEY \<mapsto>
                Some (JArr (map userEventJson
                              ([?e0] @ Chatbot_loadUserEventsFromStorage (env blankTaskChat)))))"
    and wr1: "writable (storage (env st1)) = writable (storage (env blankTaskChat))"
    and n1: "idsDrawn st1 = idsDrawn blankTaskChat + length [?e0]"
    and id1: "map m_id (messages st1) = map m_id (messages blankTaskChat)"
    and pr1: "map m_scheduleProposal (messages st1)
         = map (\<lambda>msg. if m_id msg \<noteq> asc ''ai-1'' then m_scheduleProposal msg
                       else Some (?p\<lparr>p_applied := True,
                              p_appliedCount := Some (length [?e0]),
                              p_skippedCount :=
                                Some (length (selectedItemsOf ?p) - length [?e0])\<rparr>))
             (messages blankTaskChat)"
    and fl1: "filter (\<lambda>msg. m_id msg \<noteq> asc ''ai-1'') (messages st1)
         = filter (\<lambda>msg. m_id msg \<noteq> asc ''ai-1'') (messages blankTaskChat)"
    by blast
  have stored1: "items (storage (env st1)) USER_EVENTS_STORAGE_KEY
            = Some (Some (JArr [userEventJson ?e0]))"
    by (simp add: it1 load0)
  have load1: "Chatbot_loadUserEventsFromStorage (env st1) = [?e0t]"
    by (simp add: Chatbot_loadUserEventsFromStorage_def stored1 List.map_filter_def
          blankTask_read_back)
  from id1 obtain m1 m2 where ms1: "messages st1 = [m1, m2]"
    and mid: "m_id m1 = asc ''ai-1''" "m_id m2 = asc ''ai-2''"
    by (auto simp: blankTaskChat_def blankTaskMessage_def map_eq_Cons_conv)
  from fl1 ids have m2: "m2 = blankTaskMessage ''ai-2''"
    by (simp add: ms1 mid blankTaskChat_def blankTaskMessage_def)
  from pr1 ids have p1: "m_scheduleProposal m1
      = Some (?p\<lparr>p_applied := True, p_appliedCount := Some 1, p_skippedCount := Some 0\<rparr>)"
    by (simp add: ms1 blankTaskChat_def blankTaskMessage_def blankTask_selected)
  have items1: "map (\<lambda>msg. map_option p_items (m_scheduleProposal msg)) (messages st1)
            = [Some [blankTaskItem], Some [blankTaskItem]]"
    by (simp add: ms1 p1 m2 blankTaskMessage_def)
  have applied1: "map (\<lambda>msg. map_option p_applied (m_scheduleProposal msg)) (messages st1)
            = [Some True, Some False]"
    by (simp add: ms1 p1 m2 blankTaskMessage_def)
  \<comment> \<open>the second call, on the other message\<close>
  have found2: "find (\<lambda>msg. m_id msg = asc ''ai-2'') (messages st1) = Some (blankTaskMessage ''ai-2'')"
    using ids by (simp add: ms1 mid m2[symmetric])
  have hasP2: "m_scheduleProposal (blankTaskMessage ''ai-2'') = Some ?p"
    by (simp add: blankTaskMessage_def)
  have added1: "[?e1] = addSelected exampleNanoid (idsDrawn st1)
                  (set (map (\<lambda>ev. eventKey (ev_date ev) (ev_title ev))
                          (Chatbot_loadUserEventsFromStorage (env st1))))
                  (selectedItemsOf ?p)"
    unfolding load1 blankTask_selected n1
    using blankTask_keys_differ
    by (simp add: blankTaskItem_def blankTaskEvent_def blankTaskChat_def)
  have acc1: "writable (storage (env st1)) (items (storage (env st1)))
                USER_EVENTS_STORAGE_KEY
                (JArr (map userEventJson ([?e1] @ Chatbot_loadUserEventsFromStorage (env st1))))"
    by (simp add: wr1 w0)
  from applyScheduleProposal_run[OF found2 hasP2 na sel added1 acc1]
  obtain st2 where run2: "applyScheduleProposal exampleNanoid st1 (asc ''ai-2'') = Inr st2"
    and it2: "items (storage (env st2))
         = (items (storage (env st1)))
             (USER_EVENTS_STORAGE_KEY \<mapsto>
                Some (JArr (map userEventJson
                              ([?e1] @ Chatbot_loadUserEventsFromStorage (env st1)))))"
    and pr2: "map m_scheduleProposal (messages st2)
         = map (\<lambda>msg. if m_id msg \<noteq> asc ''ai-2'' then m_scheduleProposal msg
                       else Some (?p\<lparr>p_applied := True,
                              p_appliedCount := Some (length [?e1]),
                              p_skippedCount :=
                                Some (length (selectedItemsOf ?p) - length [?e1])\<rparr>))
             (messages st1)"
    by blast
  have stored2: "items (storage (env st2)) USER_EVENTS_STORAGE_KEY
            = Some (Some (JArr [userEventJson ?e1, userEventJson ?e0t]))"
    by (simp add: it2 load1)
  have "map (\<lambda>msg. map_option p_appliedCount (m_scheduleProposal msg)) (messages st2)
        = map (map_option p_appliedCount) (map m_scheduleProposal (messages st2))"
    by (simp add: comp_def)
  also have "\<dots> = [Some (Some 1), Some (Some 1)]"
    unfolding pr2 using ids by (simp add: ms1 mid p1)
  finally have counts: "map (\<lambda>msg. map_option p_appliedCount (m_scheduleProposal msg))
      (messages st2) = [Some (Some 1), Some (Some 1)]" .
  have "\<exists>st1 st2.
        applyScheduleProposal exampleNanoid blankTaskChat (asc ''ai-1'') = Inr st1
        \<and> items (storage (env st1)) USER_EVENTS_STORAGE_KEY
            = Some (Some (JArr [userEventJson ?e0]))
        \<and> Chatbot_loadUserEventsFromStorage (env st1) = [?e0t]
        \<and> map (\<lambda>msg. map_option p_items (m_scheduleProposal msg)) (messages st1)
            = [Some [blankTaskItem], Some [blankTaskItem]]
        \<and> map (\<lambda>msg. map_option p_applied (m_scheduleProposal msg)) (messages st1)
            = [Some True, Some False]
        \<and> applyScheduleProposal exampleNanoid st1 (asc ''ai-2'') = Inr st2
        \<and> items (storage (env st2)) USER_EVENTS_STORAGE_KEY
            = Some (Some (JArr [userEventJson ?e1, userEventJson ?e0t]))
        \<and> map (\<lambda>msg. map_option p_appliedCount (m_scheduleProposal msg)) (messages st2)
            = [Some (Some 1), Some (Some 1)]"
    by (intro exI[of _ st1] exI[of _ st2] conjI)
       (rule run1, rule stored1, rule load1, rule items1, rule applied1, rule run2,
        rule stored2, rule counts)
  with blankTask_proposed[of "[]"] show ?thesis by (rule conjI)
qed

lemma example_found:
  "find (\<lambda>msg. m_id msg = asc ''ai-1'') (messages (exampleChat sel)) = Some (exampleMessage sel)"
  by (simp add: exampleChat_def exampleMessage_def)

lemma example_selected_none:
  "selectedItemsOf (exampleProposal [False, False, False]) = []"
  by (simp add: selectedItemsOf_def exampleProposal_def upt_conv_Cons)

lemma selectedItemsOf_nonempty:
  "i < length (p_items p) \<Longrightarrow> i < length (p_selected p) \<Longrightarrow> p_selected p ! i \<Longrightarrow>
     selectedItemsOf p \<noteq> []"
proof -
  assume i: "i < length (p_items p)" "i < length (p_selected p)" "p_selected p ! i"
  then have "(p_items p ! i, i) \<in> set (zip (p_items p) [0..<length (p_items p)])"
    by (auto simp: set_zip)
  with i have "(p_items p ! i, i)
      \<in> set (filter (\<lambda>(item, idx). idx < length (p_selected p) \<and> p_selected p ! idx)
               (zip (p_items p) [0..<length (p_items p)]))"
    by simp
  then have "filter (\<lambda>(item, idx). idx < length (p_selected p) \<and> p_selected p ! idx)
               (zip (p_items p) [0..<length (p_items p)]) \<noteq> []"
    by (metis empty_iff empty_set)
  then show ?thesis by (simp add: selectedItemsOf_def)
qed

lemma selectedItemsOf_empty:
  "selectedItemsOf p = [] \<Longrightarrow> i < length (p_items p) \<Longrightarrow> i < length (p_selected p) \<Longrightarrow>
     \<not> p_selected p ! i"
  using selectedItemsOf_nonempty by blast

text \<open>
  Claim C10. On a message whose proposal is not yet applied and has no selected item,
  \<open>applyScheduleProposal\<close> returns the state it was given: no event is created or
  written, nothing is dispatched, and the proposal is not marked applied, its counts
  staying unset. So after one item is selected with \<open>toggleScheduleProposalItem\<close>, a
  further call commits: it returns a state in which every message of that id carries an
  applied proposal with its count set.
\<close>

theorem apply_without_selection:
  assumes found: "find (\<lambda>msg. m_id msg = messageId) (messages st) = Some target"
    and hasP: "m_scheduleProposal target = Some proposal"
    and notApplied: "\<not> p_applied proposal"
    and none: "selectedItemsOf proposal = []"
  shows "applyScheduleProposal nanoid st messageId = Inr st
     \<and> (\<forall>i. i < length (p_items proposal) \<and> i < length (p_selected proposal) \<longrightarrow>
          (\<exists>st3. applyScheduleProposal nanoid (toggleScheduleProposalItem st messageId i) messageId
                   = Inr st3
                 \<and> length (messages st3) = length (messages st)
                 \<and> (\<forall>j < length (messages st). m_id (messages st ! j) = messageId \<longrightarrow>
                       (\<exists>p n. m_scheduleProposal (messages st3 ! j) = Some p \<and> p_applied p
                              \<and> p_appliedCount p = Some n))))"
proof (intro conjI allI impI)
  show "applyScheduleProposal nanoid st messageId = Inr st"
    using found hasP none by (simp add: applyScheduleProposal_def)
next
  fix i
  assume "i < length (p_items proposal) \<and> i < length (p_selected proposal)"
  then have i: "i < length (p_items proposal)" "i < length (p_selected proposal)" by simp_all
  from selectedItemsOf_empty[OF none i] have off: "\<not> p_selected proposal ! i" .
  let ?p2 = "proposal\<lparr>p_selected := (p_selected proposal)[i := True]\<rparr>"
  let ?g = "\<lambda>msg. if m_id msg \<noteq> messageId then msg
                 else (case m_scheduleProposal msg of
                         None \<Rightarrow> msg
                       | Some p \<Rightarrow>
                           if p_applied p then msg
                           else if i \<ge> length (p_selected p) then msg
                           else msg\<lparr>m_scheduleProposal :=
                                      Some (p\<lparr>p_selected :=
                                                (p_selected p)[i := \<not> p_selected p ! i]\<rparr>)\<rparr>)"
  let ?st2 = "toggleScheduleProposalItem st messageId i"
  have st2: "messages ?st2 = map ?g (messages st)" "env ?st2 = env st" "idsDrawn ?st2 = idsDrawn st"
    by (simp_all add: toggleScheduleProposalItem_def)
  have idg: "m_id (?g m) = m_id m" for m by (simp split: option.splits)
  from found have tid: "m_id target = messageId" by (auto simp: find_Some_iff)
  have found2: "find (\<lambda>msg. m_id msg = messageId) (messages ?st2) = Some (?g target)"
    unfolding st2 using find_map_same_id[of ?g messageId "messages st", OF idg] found by simp
  have hasP2: "m_scheduleProposal (?g target) = Some ?p2"
    using tid hasP notApplied i off by simp
  have sel2: "selectedItemsOf ?p2 \<noteq> []"
    using i by (intro selectedItemsOf_nonempty[of i]) simp_all
  let ?existing = "Chatbot_loadUserEventsFromStorage (env ?st2)"
  let ?keys = "set (map (\<lambda>ev. eventKey (ev_date ev) (ev_title ev)) ?existing)"
  let ?added = "addSelected nanoid (idsDrawn ?st2) ?keys (selectedItemsOf ?p2)"
  let ?p3 = "?p2\<lparr>p_applied := True, p_appliedCount := Some (length ?added),
                p_skippedCount := Some (length (selectedItemsOf ?p2) - length ?added)\<rparr>"
  let ?f = "\<lambda>msg. if m_id msg \<noteq> messageId then msg
                 else msg\<lparr>m_text := trim (m_text msg @ [10, 10] @ applySummary ?p2 ?added),
                          m_scheduleProposal := Some ?p3\<rparr>"
  obtain b where save: "Chatbot_saveUserEventsToStorage (env ?st2) (?added @ ?existing) = Inr b"
    using Chatbot_save_Inr by blast
  let ?st3 = "?st2\<lparr>messages := map ?f (messages ?st2),
                  env := dispatchEvent b USER_EVENTS_UPDATED_EVENT,
                  idsDrawn := idsDrawn ?st2 + length ?added\<rparr>"
  have run: "applyScheduleProposal nanoid ?st2 messageId = Inr ?st3"
    using found2 hasP2 notApplied sel2 save
    by (simp add: applyScheduleProposal_def Let_def del: toggleScheduleProposalItem_def)
  have len: "length (messages ?st3) = length (messages st)" by (simp add: st2)
  have marks: "\<forall>j < length (messages st). m_id (messages st ! j) = messageId \<longrightarrow>
       (\<exists>p n. m_scheduleProposal (messages ?st3 ! j) = Some p \<and> p_applied p
              \<and> p_appliedCount p = Some n)"
  proof (intro allI impI)
    fix j
    assume j: "j < length (messages st)" and mid: "m_id (messages st ! j) = messageId"
    have fmark: "m_id x = messageId \<Longrightarrow> m_scheduleProposal (?f x) = Some ?p3" for x
      by simp
    have m3: "messages ?st3 = map ?f (map ?g (messages st))"
      by (simp add: st2)
    have at: "messages ?st3 ! j = ?f (?g (messages st ! j))"
      using j unfolding m3 by simp
    have "m_id (?g (messages st ! j)) = messageId"
      using idg[of "messages st ! j"] mid by (simp only:)
    from fmark[OF this] have "m_scheduleProposal (messages ?st3 ! j) = Some ?p3"
      by (simp only: at)
    then show "\<exists>p n. m_scheduleProposal (messages ?st3 ! j) = Some p \<and> p_applied p
              \<and> p_appliedCount p = Some n"
      by simp
  qed
  from run len marks
  show "\<exists>st3. applyScheduleProposal nanoid ?st2 messageId = Inr st3
                 \<and> length (messages st3) = length (messages st)
                 \<and> (\<forall>j < length (messages st). m_id (messages st ! j) = messageId \<longrightarrow>
                       (\<exists>p n. m_scheduleProposal (messages st3 ! j) = Some p \<and> p_applied p
                              \<and> p_appliedCount p = Some n))"
    by blast
qed

text \<open>The example proposal with nothing selected, then with its first item selected.\<close>

theorem apply_without_selection_witness:
  "find (\<lambda>msg. m_id msg = asc ''ai-1'') (messages (exampleChat [False, False, False]))
     = Some (exampleMessage [False, False, False])
   \<and> m_scheduleProposal (exampleMessage [False, False, False])
       = Some (exampleProposal [False, False, False])
   \<and> \<not> p_applied (exampleProposal [False, False, False])
   \<and> selectedItemsOf (exampleProposal [False, False, False]) = []
   \<and> applyScheduleProposal exampleNanoid (exampleChat [False, False, False]) (asc ''ai-1'')
       = Inr (exampleChat [False, False, False])
   \<and> (\<exists>st3. applyScheduleProposal exampleNanoid
               (toggleScheduleProposalItem (exampleChat [False, False, False]) (asc ''ai-1'') 0)
               (asc ''ai-1'') = Inr st3)"
proof -
  have h1: "find (\<lambda>msg. m_id msg = asc ''ai-1'') (messages (exampleChat [False, False, False]))
     = Some (exampleMessage [False, False, False])" by (rule example_found)
  have h2: "m_scheduleProposal (exampleMessage [False, False, False])
       = Some (exampleProposal [False, False, False])" by (simp add: exampleMessage_def)
  have h3: "\<not> p_applied (exampleProposal [False, False, False])"
    by (simp add: exampleProposal_def)
  have h4: "selectedItemsOf (exampleProposal [False, False, False]) = []"
    by (rule example_selected_none)
  note T = apply_without_selection[OF h1 h2 h3 h4, of exampleNanoid]
  have i0: "0 < length (p_items (exampleProposal [False, False, False]))
        \<and> 0 < length (p_selected (exampleProposal [False, False, False]))"
    by (simp add: exampleProposal_def)
  from T[THEN conjunct2, rule_format, OF i0]
  have "\<exists>st3. applyScheduleProposal exampleNanoid
               (toggleScheduleProposalItem (exampleChat [False, False, False]) (asc ''ai-1'') 0)
               (asc ''ai-1'') = Inr st3"
    by blast
  with h1 h2 h3 h4 T[THEN conjunct1] show ?thesis by blast
qed

section \<open>Properties of the builtin overrides\<close>

lemma example_draft:
  "openEditEditor (applyOverride [] exampleBase)
   = \<lparr>draftTitle = asc ''Budget plan'', draftYear = 2025, draftMonth = 3, draftDay = 2,
      editorMode = EditMode, draftId = Some (asc ''event-2025-3-2-Budgetpla-1''),
      draftKind = Builtin, draftCategory = [50696, 49328]\<rparr>"
  by (simp add: openEditEditor_def applyOverride_def exampleBase_def keyYear_def keyMonth_def
        keyDay_def digitsToNat_def asc_def)

lemma example_draft_date:
  "buildDateKeyFromParts 2025 3 2 = asc ''2025-03-02''"
  "formatDateKey (newDate 2025 2 2) = asc ''2025-03-02''"
  by (simp_all add: buildDateKeyFromParts_def formatDateKey_def newDate_def normDay.simps
        daysInMonth_def isLeapYear_def showInt_def showNat.simps padStart0_def asc_def)

lemma example_title_trim: "trim (asc ''Budget plan'') = asc ''Budget plan''"
  by (simp add: trim_def isWhiteSpace_def asc_def)

lemma budget_is_category: "isEventCategory [50696, 49328]"
  by (simp add: isEventCategory_def EVENT_CATEGORIES_def)

text \<open>
  Claim C5. The spec wants every stored override to differ from its base event in at
  least one field. \<open>handleSaveDraft\<close> drops the date and the title of the override when
  they equal the base event's, but stores the category whenever the draft has one, equal
  to the base's or not. Opening the editor on a builtin event without override and saving
  it unchanged therefore stores an override that holds only the base event's own
  category: applying it gives the base event back, and it is what the persistence effect
  writes.
\<close>

theorem save_unchanged_builtin_stores_noop_override:
  "handleSaveDraft nanoid 0 exampleCalendar (openEditEditor (applyOverride [] exampleBase))
     = Inr (exampleCalendar\<lparr>builtinEventOverrides :=
              [(c_id exampleBase,
                \<lparr>o_date = None, o_title = None, o_category = Some (c_category exampleBase)\<rparr>)]\<rparr>)
   \<and> applyOverride
        [(c_id exampleBase,
          \<lparr>o_date = None, o_title = None, o_category = Some (c_category exampleBase)\<rparr>)]
        exampleBase = exampleBase
   \<and> overridesJson
        [(c_id exampleBase,
          \<lparr>o_date = None, o_title = None, o_category = Some (c_category exampleBase)\<rparr>)]
       = JObj [(asc ''event-2025-3-2-Budgetpla-1'',
                JObj [(asc ''category'', JStr [50696, 49328])])]"
proof -
  have a: "handleSaveDraft nanoid 0 exampleCalendar (openEditEditor (applyOverride [] exampleBase))
     = Inr (exampleCalendar\<lparr>builtinEventOverrides :=
              [(c_id exampleBase,
                \<lparr>o_date = None, o_title = None, o_category = Some (c_category exampleBase)\<rparr>)]\<rparr>)"
    unfolding example_draft
    by (simp add: handleSaveDraft_def example_draft_date example_title_trim budget_is_category
          exampleCalendar_def exampleBase_def emptyOverride_def falsy_def Let_def)
       (simp add: asc_def)
  have b: "applyOverride
        [(c_id exampleBase,
          \<lparr>o_date = None, o_title = None, o_category = Some (c_category exampleBase)\<rparr>)]
        exampleBase = exampleBase"
    by (simp add: applyOverride_def)
  have c: "overridesJson
        [(c_id exampleBase,
          \<lparr>o_date = None, o_title = None, o_category = Some (c_category exampleBase)\<rparr>)]
       = JObj [(asc ''event-2025-3-2-Budgetpla-1'',
                JObj [(asc ''category'', JStr [50696, 49328])])]"
    by (simp add: overridesJson_def overrideJson_def exampleBase_def)
  from a b c show ?thesis by (intro conjI)
qed

text \<open>
  The part of the claim that the code keeps: \<open>moveEventToDate\<close> never leaves an override
  without fields, and moving a builtin event back to its base date removes the date of its
  override, and the whole override when nothing else is left.
\<close>

lemma set_alist_update: "set (AList.update k v al) \<subseteq> insert (k, v) (set al)"
  by (induction al) auto

lemma set_alist_delete: "set (AList.delete k al) \<subseteq> set al"
  by (auto simp: AList.delete_eq)

lemma nonEmpty_with_date: "d \<noteq> [] \<Longrightarrow> nonEmptyOverride (e\<lparr>o_date := Some d\<rparr>)"
  by (simp add: nonEmptyOverride_def falsy_def)

lemma dateKeyLike_nonempty: "isDateKeyLike k \<Longrightarrow> k \<noteq> []"
  by auto

lemma falsy_None: "falsy None"
  by (simp add: falsy_def)

lemma moveEventToDate_overrides_cases:
  "builtinEventOverrides (moveEventToDate c eventId nextDateKey) = builtinEventOverrides c
   \<or> builtinEventOverrides (moveEventToDate c eventId nextDateKey)
       = AList.delete eventId (builtinEventOverrides c)
   \<or> (\<exists>v. nonEmptyOverride v
          \<and> builtinEventOverrides (moveEventToDate c eventId nextDateKey)
              = AList.update eventId v (builtinEventOverrides c))"
proof (cases "eventId = [] \<or> \<not> isDateKeyLike nextDateKey")
  case True
  then show ?thesis by (auto simp: moveEventToDate_def)
next
  case False
  then have ok: "eventId \<noteq> []" "isDateKeyLike nextDateKey" by simp_all
  show ?thesis
  proof (cases "find (\<lambda>ev. ev_id ev = eventId) (userEvents c)")
    case (Some u)
    with ok show ?thesis by (simp add: moveEventToDate_def)
  next
    case None
    note nouser = None
    show ?thesis
    proof (cases "find (\<lambda>ev. c_id ev = eventId) (baseEvents c)")
      case None
      with ok nouser show ?thesis by (simp add: moveEventToDate_def)
    next
      case (Some baseEvent)
      show ?thesis
      proof (cases "c_date baseEvent = nextDateKey")
        case True
        show ?thesis
        proof (cases "map_of (builtinEventOverrides c) eventId")
          case None
          with ok nouser Some True show ?thesis by (simp add: moveEventToDate_def)
        next
          case (Some existing)
          show ?thesis
          proof (cases "nonEmptyOverride (existing\<lparr>o_date := None\<rparr>)")
            case True
            with ok nouser \<open>find (\<lambda>ev. c_id ev = eventId) (baseEvents c) = Some baseEvent\<close>
              \<open>c_date baseEvent = nextDateKey\<close> Some
            have "builtinEventOverrides (moveEventToDate c eventId nextDateKey)
                    = AList.update eventId (existing\<lparr>o_date := None\<rparr>) (builtinEventOverrides c)"
              by (auto simp: moveEventToDate_def Let_def nonEmptyOverride_def falsy_None)
            with True show ?thesis by blast
          next
            case False
            with ok nouser \<open>find (\<lambda>ev. c_id ev = eventId) (baseEvents c) = Some baseEvent\<close>
              \<open>c_date baseEvent = nextDateKey\<close> Some
            have "builtinEventOverrides (moveEventToDate c eventId nextDateKey)
                    = AList.delete eventId (builtinEventOverrides c)"
              by (simp add: moveEventToDate_def Let_def nonEmptyOverride_def falsy_None)
            then show ?thesis by blast
          qed
        qed
      next
        case False
        let ?v = "(case map_of (builtinEventOverrides c) eventId of
                     None \<Rightarrow> emptyOverride | Some existing \<Rightarrow> existing)\<lparr>o_date := Some nextDateKey\<rparr>"
        from ok nouser Some False
        have "builtinEventOverrides (moveEventToDate c eventId nextDateKey)
                = AList.update eventId ?v (builtinEventOverrides c)"
          by (simp add: moveEventToDate_def)
        moreover have "nonEmptyOverride ?v"
          using ok by (intro nonEmpty_with_date dateKeyLike_nonempty)
        ultimately show ?thesis by blast
      qed
    qed
  qed
qed

lemma moveEventToDate_keeps_nonempty:
  assumes inv: "\<forall>p \<in> set (builtinEventOverrides c). nonEmptyOverride (snd p)"
  shows "\<forall>p \<in> set (builtinEventOverrides (moveEventToDate c eventId nextDateKey)).
           nonEmptyOverride (snd p)"
proof -
  let ?r = "builtinEventOverrides (moveEventToDate c eventId nextDateKey)"
  from moveEventToDate_overrides_cases[of c eventId nextDateKey]
  consider "?r = builtinEventOverrides c"
    | "?r = AList.delete eventId (builtinEventOverrides c)"
    | v where "nonEmptyOverride v" "?r = AList.update eventId v (builtinEventOverrides c)"
    by blast
  then show ?thesis
  proof cases
    case 1
    with inv show ?thesis by simp
  next
    case 2
    with inv set_alist_delete[of eventId "builtinEventOverrides c"] show ?thesis by auto
  next
    case 3
    with inv set_alist_update[of eventId v "builtinEventOverrides c"] show ?thesis by auto
  qed
qed

lemma moveEventToDate_back_to_base:
  assumes "eventId \<noteq> []" "isDateKeyLike nextDateKey"
    and "find (\<lambda>ev. ev_id ev = eventId) (userEvents c) = None"
    and "find (\<lambda>ev. c_id ev = eventId) (baseEvents c) = Some baseEvent"
    and "c_date baseEvent = nextDateKey"
    and "map_of (builtinEventOverrides c) eventId = Some existing"
  shows "map_of (builtinEventOverrides (moveEventToDate c eventId nextDateKey)) eventId
         = (if falsy (o_title existing) \<and> falsy (o_category existing) then None
            else Some (existing\<lparr>o_date := None\<rparr>))"
  using assms
  by (simp add: moveEventToDate_def Let_def falsy_def update_conv' delete_conv')

section \<open>Properties of the backup import\<close>

subsection \<open>Writing and reading back\<close>








lemma map_of_rev_distinct: "distinct (map fst xs) \<Longrightarrow> map_of (rev xs) = map_of xs"
proof (induction xs)
  case Nil
  then show ?case by simp
next
  case (Cons x xs)
  obtain k v where x: "x = (k, v)" by (cases x)
  from Cons.prems x have nk: "k \<notin> fst ` set xs" and d: "distinct (map fst xs)" by auto
  from nk have none: "map_of xs k = None" by (simp add: map_of_eq_None_iff)
  have "map_of (rev (x # xs)) = map_of [(k, v)] ++ map_of (rev xs)" by (simp add: x)
  also have "\<dots> = map_of [(k, v)] ++ map_of xs" by (simp add: Cons.IH[OF d])
  also have "\<dots> = map_of (x # xs)"
    using none by (auto simp: x fun_eq_iff map_add_def split: option.splits)
  finally show ?case .
qed








lemma source_roundtrip: "asCalendarEventSource (Some (JStr (sourceName s))) = Some s"
  by (cases s) (simp_all add: asCalendarEventSource_def sourceName_def asc_def)

lemma userEventJson_props:
  "getProp (userEventJson ev) (asc ''id'') = Some (JStr (ev_id ev))"
  "getProp (userEventJson ev) (asc ''date'') = Some (JStr (ev_date ev))"
  "getProp (userEventJson ev) (asc ''title'') = Some (JStr (ev_title ev))"
  "getProp (userEventJson ev) (asc ''category'') = Some (JStr (ev_category ev))"
  "getProp (userEventJson ev) (asc ''source'') = Some (JStr (sourceName (ev_source ev)))"
  by (simp_all add: userEventJson_def asc_def)

lemma storedUserEventOf_roundtrip:
  "normalEvent ev \<Longrightarrow> storedUserEventOf (userEventJson ev) = Some ev"
  by (simp add: storedUserEventOf_def userEventJson_props normalEvent_def source_roundtrip
        asEventCategory_def)

lemma map_filter_roundtrip:
  "\<forall>ev \<in> set xs. normalEvent ev \<Longrightarrow>
     List.map_filter storedUserEventOf (map userEventJson xs) = xs"
  by (induction xs) (simp_all add: List.map_filter_simps storedUserEventOf_roundtrip)






lemma overrideJson_props:
  "getProp (overrideJson ov) (asc ''date'') = map_option JStr (o_date ov)"
  "getProp (overrideJson ov) (asc ''title'') = map_option JStr (o_title ov)"
  "getProp (overrideJson ov) (asc ''category'') = map_option JStr (o_category ov)"
  by (simp_all add: overrideJson_def asc_def split: option.splits)

lemma storedOverrideOf_roundtrip:
  assumes "normalOverride ov"
  shows "storedOverrideOf (overrideJson ov) = Some ov"
proof -
  have j: "\<exists>kvs. overrideJson ov = JObj kvs" by (simp add: overrideJson_def)
  have d: "(case getProp (overrideJson ov) (asc ''date'') of
              Some (JStr d) \<Rightarrow> if isDateKeyLike d then Some d else None | _ \<Rightarrow> None) = o_date ov"
    using assms by (cases "o_date ov") (simp_all add: overrideJson_props(1) normalOverride_def)
  have t: "(case getProp (overrideJson ov) (asc ''title'') of
              Some (JStr t) \<Rightarrow> if trim t \<noteq> [] then Some (trim t) else None | _ \<Rightarrow> None)
           = o_title ov"
    using assms by (cases "o_title ov") (simp_all add: overrideJson_props(2) normalOverride_def)
  have c: "asEventCategory (getProp (overrideJson ov) (asc ''category'')) = o_category ov"
    using assms
    by (cases "o_category ov")
       (simp_all add: overrideJson_props(3) normalOverride_def asEventCategory_def)
  from j obtain kvs where k: "overrideJson ov = JObj kvs" by blast
  have "storedOverrideOf (overrideJson ov)
        = Some \<lparr>o_date = (case getProp (overrideJson ov) (asc ''date'') of
                           Some (JStr d) \<Rightarrow> if isDateKeyLike d then Some d else None
                         | _ \<Rightarrow> None),
                o_title = (case getProp (overrideJson ov) (asc ''title'') of
                            Some (JStr t) \<Rightarrow> if trim t \<noteq> [] then Some (trim t) else None
                          | _ \<Rightarrow> None),
                o_category = asEventCategory (getProp (overrideJson ov) (asc ''category''))\<rparr>"
    by (simp add: storedOverrideOf_def k[symmetric] split: json.splits) (simp add: k)
  then show ?thesis by (simp only: d t c) simp
qed

lemma map_filter_keys_id:
  "\<forall>p \<in> set kvs. m (fst p) = Some (snd p) \<Longrightarrow>
     List.map_filter (\<lambda>k. map_option (Pair k) (m k)) (map fst kvs) = kvs"
  by (induction kvs) (auto simp: List.map_filter_simps)

lemma objEntries_distinct: "distinct (map fst kvs) \<Longrightarrow> objEntries kvs = kvs"
proof -
  assume d: "distinct (map fst kvs)"
  then have "rev (remdups (rev (map fst kvs))) = map fst kvs"
    by (simp add: distinct_remdups_id)
  moreover have "\<forall>p \<in> set kvs. map_of (rev kvs) (fst p) = Some (snd p)"
    using d by (auto simp: map_of_rev_distinct)
  ultimately show ?thesis by (simp add: objEntries_def map_filter_keys_id)
qed















subsection \<open>The example import\<close>

lemma dkl_2024: "isDateKeyLike (asc ''2024-05-01'')"
  by (simp add: asc_def isDigit_def)
lemma dkl_2025a: "isDateKeyLike (asc ''2025-03-10'')"
  by (simp add: asc_def isDigit_def)

lemma year_2024: "yearFromDateKey (asc ''2024-05-01'') = Some 2024"
  using dkl_2024 by (simp add: yearFromDateKey_def) (simp add: asc_def digitsToNat_def)
lemma year_2025a: "yearFromDateKey (asc ''2025-03-10'') = Some 2025"
  using dkl_2025a by (simp add: yearFromDateKey_def) (simp add: asc_def digitsToNat_def)

lemma trim_Old: "trim (asc ''Old'') = asc ''Old''"
  by (simp add: trim_def asc_def isWhiteSpace_def)
lemma trim_Restored: "trim (asc ''Restored'') = asc ''Restored''"
  by (simp add: trim_def asc_def isWhiteSpace_def)
lemma trim_Renamed: "trim (asc ''Renamed'') = asc ''Renamed''"
  by (simp add: trim_def asc_def isWhiteSpace_def)

lemma normal_storedEvent2024: "normalEvent storedEvent2024"
  using dkl_2024 trim_Old DEFAULT_in_EVENT_CATEGORIES
  by (simp add: normalEvent_def storedEvent2024_def) (simp add: asc_def)
lemma normal_importedEvent: "normalEvent importedEvent"
  using dkl_2025a trim_Restored DEFAULT_in_EVENT_CATEGORIES
  by (simp add: normalEvent_def importedEvent_def) (simp add: asc_def)

lemma normal_importedOverride:
  "normalOverride importedOverride \<and> nonEmptyOverride importedOverride"
  using trim_Renamed
  by (simp add: normalOverride_def nonEmptyOverride_def importedOverride_def falsy_def)
     (simp add: asc_def)

lemma year_of_example_id: "yearFromBuiltinEventId (c_id exampleBase) = Some 2025"
  by (simp add: yearFromBuiltinEventId_def exampleBase_def asc_def isDigit_def digitsToNat_def)


lemma effectiveYear_imported: "effectiveYear (c_id exampleBase) importedOverride = Some 2025"
  using year_of_example_id by (simp add: effectiveYear_def importedOverride_def)



lemma backupFile_props:
  "getProp backupFile (asc ''version'') = Some (JNum 1)"
  "getProp backupFile (asc ''year'') = Some (JNum 2025)"
  "getProp backupFile (asc ''userEvents'')
     = Some (JArr [userEventJson importedEvent, userEventJson storedEvent2024])"
  "getProp backupFile (asc ''builtinEventOverrides'')
     = Some (JObj [(c_id exampleBase, overrideJson importedOverride)])"
  by (simp_all add: backupFile_def asc_def)

lemma backupFile_normalized:
  "normalizeBackupPayload backupFile
   = Inr \<lparr>b_year = 2025, b_userEvents = [importedEvent],
          b_overrides = [(c_id exampleBase, importedOverride)]\<rparr>"
proof -
  have ev: "List.map_filter storedUserEventOf
              [userEventJson importedEvent, userEventJson storedEvent2024]
            = [importedEvent, storedEvent2024]"
    using map_filter_roundtrip[of "[importedEvent, storedEvent2024]"]
      normal_importedEvent normal_storedEvent2024 by simp
  have f: "filter (\<lambda>ev. yearFromDateKey (ev_date ev) = Some 2025) [importedEvent, storedEvent2024]
           = [importedEvent]"
    using year_2025a year_2024 by (simp add: importedEvent_def storedEvent2024_def)
  have oe: "objEntries [(c_id exampleBase, overrideJson importedOverride)]
            = [(c_id exampleBase, overrideJson importedOverride)]"
    by (rule objEntries_distinct) simp
  have so: "storedOverrideOf (overrideJson importedOverride) = Some importedOverride"
    using normal_importedOverride by (simp add: storedOverrideOf_roundtrip)
  have obj: "\<exists>members. backupFile = JObj members" by (simp add: backupFile_def)
  then obtain members where m: "backupFile = JObj members" ..
  show ?thesis
    using backupFile_props ev f oe so effectiveYear_imported normal_importedOverride
    unfolding normalizeBackupPayload_def m [symmetric]
    by (simp add: m nullish_def truncNum_def Let_def)
qed




subsection \<open>The import replaces the slice of the file's year\<close>




section \<open>Properties of the storage writes\<close>

lemma try_save_Inr:
  "(case setItem b k v of Inl e \<Rightarrow> Inr b | Inr b' \<Rightarrow> Inr b')
   = Inr (if writable (storage b) (items (storage b)) k v
          then b\<lparr>storage := (storage b)\<lparr>items := (items (storage b))(k \<mapsto> Some v)\<rparr>\<rparr>
          else b)"
  by (simp add: setItem_def)

text \<open>
  Claim C8. The calendar's three save helpers and the chatbot's save helper wrap their
  write in \<open>try\<close>/\<open>catch\<close>: each returns normally, with the value written when the
  storage accepts it and with the browser unchanged when the write fails. The two save
  helpers of the backup dialog have no \<open>try\<close>: a failing write leaves them as an error.
  Their only caller is \<open>handleImportBackupFile\<close>, whose \<open>catch\<close> turns the error into the
  error status of the dialog: on a storage that refuses every write the import ends with
  an error status and the browser unchanged, whatever the file.
\<close>

theorem storage_saves_swallow_or_report:
  "Calendar_saveUserEventsToStorage b evs
     = Inr (if writable (storage b) (items (storage b)) USER_EVENTS_STORAGE_KEY
                 (JArr (map userEventJson evs))
            then b\<lparr>storage := (storage b)\<lparr>items := (items (storage b))
                     (USER_EVENTS_STORAGE_KEY \<mapsto> Some (JArr (map userEventJson evs)))\<rparr>\<rparr>
            else b)
   \<and> Chatbot_saveUserEventsToStorage b evs = Calendar_saveUserEventsToStorage b evs
   \<and> saveBuiltinEventOverridesToStorage b ovs
     = Inr (if writable (storage b) (items (storage b)) BUILTIN_EVENT_OVERRIDES_STORAGE_KEY
                 (overridesJson ovs)
            then b\<lparr>storage := (storage b)\<lparr>items := (items (storage b))
                     (BUILTIN_EVENT_OVERRIDES_STORAGE_KEY \<mapsto> Some (overridesJson ovs))\<rparr>\<rparr>
            else b)
   \<and> (\<exists>b'. saveEventFiltersToStorage b cats srcs = Inr b'
          \<and> ((\<forall>v. \<not> writable (storage b) (items (storage b)) EVENT_FILTERS_STORAGE_KEY v)
               \<longrightarrow> b' = b))
   \<and> (\<not> writable (storage b) (items (storage b)) USER_EVENTS_STORAGE_KEY
           (JArr (map userEventJson evs))
        \<longrightarrow> saveStoredUserEvents b evs = Inl (Err (asc ''QuotaExceededError'')))
   \<and> (\<not> writable (storage b) (items (storage b)) BUILTIN_EVENT_OVERRIDES_STORAGE_KEY
           (overridesJson ovs)
        \<longrightarrow> saveStoredBuiltinOverrides b ovs = Inl (Err (asc ''QuotaExceededError'')))
   \<and> ((\<forall>k v. \<not> writable (storage b) (items (storage b)) k v)
        \<longrightarrow> (\<exists>e. handleImportBackupFile b fileJson = (b, ImportError e)))"
proof -
  have c1: "Calendar_saveUserEventsToStorage b evs
     = Inr (if writable (storage b) (items (storage b)) USER_EVENTS_STORAGE_KEY
                 (JArr (map userEventJson evs))
            then b\<lparr>storage := (storage b)\<lparr>items := (items (storage b))
                     (USER_EVENTS_STORAGE_KEY \<mapsto> Some (JArr (map userEventJson evs)))\<rparr>\<rparr>
            else b)"
    unfolding Calendar_saveUserEventsToStorage_def by (rule try_save_Inr)
  have c2: "Chatbot_saveUserEventsToStorage b evs = Calendar_saveUserEventsToStorage b evs"
    by (simp add: Chatbot_saveUserEventsToStorage_def Calendar_saveUserEventsToStorage_def)
  have c3: "saveBuiltinEventOverridesToStorage b ovs
     = Inr (if writable (storage b) (items (storage b)) BUILTIN_EVENT_OVERRIDES_STORAGE_KEY
                 (overridesJson ovs)
            then b\<lparr>storage := (storage b)\<lparr>items := (items (storage b))
                     (BUILTIN_EVENT_OVERRIDES_STORAGE_KEY \<mapsto> Some (overridesJson ovs))\<rparr>\<rparr>
            else b)"
    unfolding saveBuiltinEventOverridesToStorage_def by (rule try_save_Inr)
  have c4: "\<exists>b'. saveEventFiltersToStorage b cats srcs = Inr b'
          \<and> ((\<forall>v. \<not> writable (storage b) (items (storage b)) EVENT_FILTERS_STORAGE_KEY v)
               \<longrightarrow> b' = b)"
    unfolding saveEventFiltersToStorage_def try_save_Inr by simp
  have c5: "\<not> writable (storage b) (items (storage b)) USER_EVENTS_STORAGE_KEY
           (JArr (map userEventJson evs))
        \<longrightarrow> saveStoredUserEvents b evs = Inl (Err (asc ''QuotaExceededError''))"
    by (simp add: saveStoredUserEvents_def setItem_def)
  have c6: "\<not> writable (storage b) (items (storage b)) BUILTIN_EVENT_OVERRIDES_STORAGE_KEY
           (overridesJson ovs)
        \<longrightarrow> saveStoredBuiltinOverrides b ovs = Inl (Err (asc ''QuotaExceededError''))"
    by (simp add: saveStoredBuiltinOverrides_def setItem_def)
  have c7: "(\<forall>k v. \<not> writable (storage b) (items (storage b)) k v)
        \<longrightarrow> (\<exists>e. handleImportBackupFile b fileJson = (b, ImportError e))"
    by (simp add: handleImportBackupFile_def saveStoredUserEvents_def setItem_def Let_def
          split: option.splits sum.splits)
  from c1 c2 c3 c4 c5 c6 c7 show ?thesis by (intro conjI)
qed

text \<open>On the browser whose storage refuses every write: the four helpers with a \<open>try\<close>
  return the browser as it was, the two helpers of the backup dialog fail with the error
  of the write, and the import of the example file reports that error.\<close>

theorem storage_saves_swallow_or_report_witness:
  "Calendar_saveUserEventsToStorage fullBrowser [exampleStoredEvent] = Inr fullBrowser
   \<and> Chatbot_saveUserEventsToStorage fullBrowser [exampleStoredEvent] = Inr fullBrowser
   \<and> saveBuiltinEventOverridesToStorage fullBrowser [(c_id exampleBase, movedOverride)]
       = Inr fullBrowser
   \<and> saveEventFiltersToStorage fullBrowser [DEFAULT_EVENT_CATEGORY] [Manual] = Inr fullBrowser
   \<and> saveStoredUserEvents fullBrowser [exampleStoredEvent]
       = Inl (Err (asc ''QuotaExceededError''))
   \<and> saveStoredBuiltinOverrides fullBrowser [(c_id exampleBase, movedOverride)]
       = Inl (Err (asc ''QuotaExceededError''))
   \<and> fst (handleImportBackupFile fullBrowser (Some backupFile)) = fullBrowser
   \<and> snd (handleImportBackupFile fullBrowser (Some backupFile))
       = ImportError (Err (asc ''QuotaExceededError''))"
proof -
  note t = storage_saves_swallow_or_report[where b = fullBrowser
      and evs = "[exampleStoredEvent]" and ovs = "[(c_id exampleBase, movedOverride)]"
      and cats = "[DEFAULT_EVENT_CATEGORY]" and srcs = "[Manual]"
      and fileJson = "Some backupFile"]
  have w: "\<And>k v. \<not> writable (storage fullBrowser) (items (storage fullBrowser)) k v"
    by (simp add: fullBrowser_def)
  from t have c1: "Calendar_saveUserEventsToStorage fullBrowser [exampleStoredEvent]
                   = Inr fullBrowser"
    using w by simp
  from t have c2: "Chatbot_saveUserEventsToStorage fullBrowser [exampleStoredEvent]
                   = Inr fullBrowser"
    using w by simp
  from t have c3: "saveBuiltinEventOverridesToStorage fullBrowser
                     [(c_id exampleBase, movedOverride)] = Inr fullBrowser"
    using w by simp
  from t w have c4: "saveEventFiltersToStorage fullBrowser [DEFAULT_EVENT_CATEGORY] [Manual]
                   = Inr fullBrowser"
    by blast
  from t w have c5: "saveStoredUserEvents fullBrowser [exampleStoredEvent]
       = Inl (Err (asc ''QuotaExceededError''))"
    by blast
  from t w have c6: "saveStoredBuiltinOverrides fullBrowser [(c_id exampleBase, movedOverride)]
       = Inl (Err (asc ''QuotaExceededError''))"
    by blast
  from t w obtain e where i: "handleImportBackupFile fullBrowser (Some backupFile)
       = (fullBrowser, ImportError e)"
    by blast
  then have c7: "fst (handleImportBackupFile fullBrowser (Some backupFile)) = fullBrowser"
    by simp
  have "handleImportBackupFile fullBrowser (Some backupFile)
        = (fullBrowser, ImportError (Err (asc ''QuotaExceededError'')))"
    using backupFile_normalized w
    by (simp add: handleImportBackupFile_def saveStoredUserEvents_def setItem_def Let_def)
  then have c8: "snd (handleImportBackupFile fullBrowser (Some backupFile))
       = ImportError (Err (asc ''QuotaExceededError''))"
    by simp
  from c1 c2 c3 c4 c5 c6 c7 c8 show ?thesis by (intro conjI)
qed

text \<open>The claim as the spec words it has every save operation complete without raising;
  \<open>saveStoredUserEvents\<close> raises the error of the failing write.\<close>

theorem storage_saves_counterexample:
  "saveStoredUserEvents fullBrowser [exampleStoredEvent]
   = Inl (Err (asc ''QuotaExceededError''))"
  by (simp add: saveStoredUserEvents_def setItem_def fullBrowser_def)


end
